theory Spec2Isabelle
  imports Main "HOL-Library.Word"
begin

unbundle bit_operations_syntax

section \<open>Shared values\<close>

type_synonym byte = "8 word"

text \<open>
  Exceptions are values. \<open>OwnershipError\<close> is the class fury.ts imports from ./error
  and tests with \<open>instanceof\<close>; \<open>Error msg\<close> is \<open>new Error(msg)\<close>;
  \<open>OutOfBounds\<close> is the failure of a buffer access outside the buffer.
\<close>

datatype error = OwnershipError | OutOfBounds | Error string

text \<open>
  Modelled from the spec: the constants of \<open>ConfigFlags\<close> (./type is not part of the
  sources). Section 6 gives the bitmap as bit0 isNull, bit1 isLittleEndian,
  bit2 isCrossLanguage, bit3 isOutOfBand.
\<close>

definition isNullFlag :: byte where
  "isNullFlag = 1"

definition isLittleEndianFlag :: byte where
  "isLittleEndianFlag = 2"

definition isCrossLanguageFlag :: byte where
  "isCrossLanguageFlag = 4"

definition isOutOfBandFlag :: byte where
  "isOutOfBandFlag = 8"

text \<open>Little-endian bytes of a 32-bit value, and back (section 6: all multi-byte
  integers are little-endian).\<close>

definition le32 :: "32 word \<Rightarrow> byte list" where
  "le32 v = [ucast v, ucast (drop_bit 8 v), ucast (drop_bit 16 v), ucast (drop_bit 24 v)]"

definition of_le :: "byte list \<Rightarrow> 32 word" where
  "of_le bs = foldr (\<lambda>b acc. ucast b OR push_bit 8 acc) bs 0"

section \<open>Configuration\<close>

typedecl Hook

record Config =
  refTracking :: bool
  useSliceString :: bool
  hooks :: "string \<rightharpoonup> Hook"

section \<open>The Writer and its ownership marker\<close>

text \<open>
  Modelled from the spec: the Writer (./writer is not part of the sources). Section 2
  and 4.2: a growable, cursor-addressed byte buffer that is reused from call to call,
  with a pending-release marker (\<open>locked\<close>) installed by the aliasing extraction.
  \<open>storage\<close> is the allocated buffer (its length is the capacity), \<open>cursor\<close> the
  logical length.
\<close>

record BinaryWriter =
  storage :: "byte list"
  cursor :: nat
  locked :: bool

text \<open>Modelled from the spec: \<open>BinaryWriter(config)\<close>, a fresh Writer.\<close>

definition BinaryWriter_new :: "Config \<Rightarrow> BinaryWriter" where
  "BinaryWriter_new config = \<lparr>storage = [], cursor = 0, locked = False\<rparr>"

text \<open>Modelled from the spec: \<open>reset()\<close> fails if a pending-release marker is
  present; otherwise the buffer is reused from position 0.\<close>

definition writer_reset :: "BinaryWriter \<Rightarrow> error + BinaryWriter" where
  "writer_reset w = (if locked w then Inl OwnershipError else Inr (w\<lparr>cursor := 0\<rparr>))"

text \<open>Modelled from the spec: \<open>reserve(n)\<close> grows the capacity so that \<open>n\<close> more
  bytes fit, without advancing the logical length.\<close>

definition writer_reserve :: "nat \<Rightarrow> BinaryWriter \<Rightarrow> BinaryWriter" where
  "writer_reserve n w =
     w\<lparr>storage := storage w @ replicate (cursor w + n - length (storage w)) 0\<rparr>"

text \<open>Overwriting the bytes of a buffer from position \<open>pos\<close> on.\<close>

definition put_bytes :: "nat \<Rightarrow> byte list \<Rightarrow> byte list \<Rightarrow> byte list" where
  "put_bytes pos bs st = take pos st @ bs @ drop (pos + length bs) st"

text \<open>Modelled from the spec: the primitive positional writes; each grows the
  buffer as needed, stores at the cursor and advances it.\<close>

definition writer_uint8 :: "byte \<Rightarrow> BinaryWriter \<Rightarrow> BinaryWriter" where
  "writer_uint8 v w =
     (let w' = writer_reserve 1 w
      in w'\<lparr>storage := put_bytes (cursor w) [v] (storage w'), cursor := cursor w + 1\<rparr>)"

definition writer_uint32 :: "32 word \<Rightarrow> BinaryWriter \<Rightarrow> BinaryWriter" where
  "writer_uint32 v w =
     (let w' = writer_reserve 4 w
      in w'\<lparr>storage := put_bytes (cursor w) (le32 v) (storage w'), cursor := cursor w + 4\<rparr>)"

text \<open>Modelled from the spec: \<open>skip(n)\<close> advances the cursor leaving a gap for later
  patching; the gap keeps whatever the reused buffer held.\<close>

definition writer_skip :: "nat \<Rightarrow> BinaryWriter \<Rightarrow> BinaryWriter" where
  "writer_skip n w = (writer_reserve n w)\<lparr>cursor := cursor w + n\<rparr>"

text \<open>Modelled from the spec: \<open>getCursor()\<close>.\<close>

definition writer_getCursor :: "BinaryWriter \<Rightarrow> nat" where
  "writer_getCursor w = cursor w"

text \<open>Modelled from the spec: \<open>setUint32Position(cursor, value)\<close> patches a 4-byte
  field in place, the value taken as an unsigned 32-bit integer. The spec speaks of a
  previously skipped field only; a field outside the buffer is a failure.\<close>

definition writer_setUint32Position :: "nat \<Rightarrow> nat \<Rightarrow> BinaryWriter \<Rightarrow> error + BinaryWriter" where
  "writer_setUint32Position pos v w =
     (if pos + 4 \<le> length (storage w)
      then Inr (w\<lparr>storage := put_bytes pos (le32 (of_nat v)) (storage w)\<rparr>)
      else Inl OutOfBounds)"

text \<open>Modelled from the spec: \<open>dump()\<close>, the copying extraction; it always succeeds
  and leaves the Writer as it is.\<close>

definition writer_dump :: "BinaryWriter \<Rightarrow> byte list" where
  "writer_dump w = take (cursor w) (storage w)"

text \<open>
  Modelled from the spec: \<open>dumpAndOwn()\<close>, the aliasing extraction. It succeeds only
  if no alias is outstanding, returns a view over the live storage (\<open>get\<close> reads the
  Writer as it is when asked) together with the disposer that clears the marker, and
  installs the marker.
\<close>

record View =
  get :: "BinaryWriter \<Rightarrow> byte list"
  dispose :: "BinaryWriter \<Rightarrow> BinaryWriter"

definition writer_dumpAndOwn :: "BinaryWriter \<Rightarrow> (error + View) \<times> BinaryWriter" where
  "writer_dumpAndOwn w =
     (if locked w then (Inl OwnershipError, w)
      else (Inr \<lparr>get = writer_dump, dispose = (\<lambda>w'. w'\<lparr>locked := False\<rparr>)\<rparr>,
            w\<lparr>locked := True\<rparr>))"

section \<open>The Reader\<close>

text \<open>
  Modelled from the spec: the Reader (./reader is not part of the sources), a cursor
  over the input bytes. The spec gives no contract for a read past the end of the
  input; the model makes it a failure that moves nothing.
\<close>

record BinaryReader =
  input :: "byte list"
  offset :: nat

text \<open>Modelled from the spec: \<open>BinaryReader(config)\<close>, a Reader over no input yet.\<close>

definition BinaryReader_new :: "Config \<Rightarrow> BinaryReader" where
  "BinaryReader_new config = \<lparr>input = [], offset = 0\<rparr>"

text \<open>Modelled from the spec: \<open>reset(bytes)\<close> puts the Reader over the input bytes.\<close>

definition reader_reset :: "byte list \<Rightarrow> BinaryReader \<Rightarrow> BinaryReader" where
  "reader_reset bytes r = \<lparr>input = bytes, offset = 0\<rparr>"

text \<open>Modelled from the spec: \<open>uint8()\<close> reads one byte at the cursor.\<close>

definition reader_uint8 :: "BinaryReader \<Rightarrow> (error + byte) \<times> BinaryReader" where
  "reader_uint8 r =
     (if offset r < length (input r)
      then (Inr (input r ! offset r), r\<lparr>offset := offset r + 1\<rparr>)
      else (Inl OutOfBounds, r))"

text \<open>Modelled from the spec: \<open>int32()\<close> reads four bytes, little-endian.\<close>

definition reader_int32 :: "BinaryReader \<Rightarrow> (error + 32 word) \<times> BinaryReader" where
  "reader_int32 r =
     (if offset r + 4 \<le> length (input r)
      then (Inr (of_le (take 4 (drop (offset r) (input r)))), r\<lparr>offset := offset r + 4\<rparr>)
      else (Inl OutOfBounds, r))"

section \<open>The resolvers\<close>

text \<open>
  Modelled from the spec: the Reference Resolver state (./referenceResolver is not
  part of the sources). Section 3: a per-call mapping from object identity to
  reference index (write side) and from reference index to object (read side);
  identities are numbers here.
\<close>

record ReferenceResolver =
  writeObjects :: "(nat \<times> nat) list"
  readObjects :: "nat list"

text \<open>Modelled from the spec: \<open>ReferenceResolver(config, writer, reader)\<close>.\<close>

definition ReferenceResolver_new :: "Config \<Rightarrow> ReferenceResolver" where
  "ReferenceResolver_new config = \<lparr>writeObjects = [], readObjects = []\<rparr>"

text \<open>Modelled from the spec: \<open>reset()\<close> empties the per-call state.\<close>

definition resolver_reset :: "ReferenceResolver \<Rightarrow> ReferenceResolver" where
  "resolver_reset r = \<lparr>writeObjects = [], readObjects = []\<rparr>"

text \<open>
  Modelled from the spec: the Class Resolver state (./classResolver is not part of the
  sources). Section 3 and 4.4: a table of type identifiers that lasts as long as the
  engine, seeded with the built-in types at construction, under a transient per-call
  layer.
\<close>

record ClassResolver =
  typeTable :: "(nat \<times> string) list"
  transient :: "(string \<times> nat) list"

text \<open>Modelled from the spec: \<open>new ClassResolver()\<close> and \<open>init(fury)\<close>; the built-in
  registrations are a parameter.\<close>

definition ClassResolver_new :: ClassResolver where
  "ClassResolver_new = \<lparr>typeTable = [], transient = []\<rparr>"

definition class_init :: "(nat \<times> string) list \<Rightarrow> ClassResolver \<Rightarrow> ClassResolver" where
  "class_init builtins r = r\<lparr>typeTable := typeTable r @ builtins\<rparr>"

text \<open>Modelled from the spec: \<open>reset()\<close> empties the transient layer and keeps the
  table.\<close>

definition class_reset :: "ClassResolver \<Rightarrow> ClassResolver" where
  "class_reset r = r\<lparr>transient := []\<rparr>"

section \<open>The engine (fury.ts)\<close>

text \<open>
  The fields of the class. \<open>anySerializer\<close> is only the default value of the
  \<open>serializer\<close> argument: the operations below take the codec explicitly, the
  fallback codec being a codec like any other.
\<close>

record Fury =
  config :: Config
  binaryReader :: BinaryReader
  binaryWriter :: BinaryWriter
  classResolver :: ClassResolver
  referenceResolver :: ReferenceResolver

text \<open>
  A codec (\<open>Serializer\<close> of ./type): its fixed-size hint \<open>meta.fixedSize\<close> and its
  \<open>write\<close> and \<open>read\<close> routines, named \<open>write_routine\<close> and \<open>read_routine\<close>
  (\<open>write\<close> is a keyword of Isabelle). They are closures over the engine and so may
  use and change any of its parts, or throw. A value of type \<open>T | null\<close> is an
  option, \<open>None\<close> for \<open>null\<close>.
\<close>

record 'v Serializer =
  fixedSize :: nat
  write_routine :: "'v option \<Rightarrow> Fury \<Rightarrow> (error + unit) \<times> Fury"
  read_routine :: "Fury \<Rightarrow> (error + 'v option) \<times> Fury"

text \<open>
  The calls the engine makes on its collaborators, in the order it makes them
  (\<open>WriterGetCursor c\<close>: the call returned \<open>c\<close>). The history is kept beside
  the engine; no operation reads it, and a codec cannot touch it.
\<close>

datatype call =
    RefReset | ClassReset
  | ReaderReset "byte list" | ReaderUint8 | ReaderInt32
  | WriterReset | WriterUint8 byte | WriterGetCursor nat | WriterSkip nat
  | WriterUint32 "32 word" | WriterReserve nat | WriterSetUint32Position nat nat
  | WriterDump | WriterDumpAndOwn
  | SerializerWrite | SerializerRead | GenerateSerializer

record engine =
  fury :: Fury
  history :: "call list"

definition called :: "call \<Rightarrow> engine \<Rightarrow> engine" where
  "called c e = e\<lparr>history := history e @ [c]\<rparr>"

definition with_writer :: "BinaryWriter \<Rightarrow> engine \<Rightarrow> engine" where
  "with_writer w e = e\<lparr>fury := (fury e)\<lparr>binaryWriter := w\<rparr>\<rparr>"

definition with_reader :: "BinaryReader \<Rightarrow> engine \<Rightarrow> engine" where
  "with_reader r e = e\<lparr>fury := (fury e)\<lparr>binaryReader := r\<rparr>\<rparr>"

subsection \<open>Calls on the collaborators\<close>

definition referenceResolver_reset :: "engine \<Rightarrow> engine" where
  "referenceResolver_reset e =
     called RefReset
       (e\<lparr>fury := (fury e)\<lparr>referenceResolver := resolver_reset (referenceResolver (fury e))\<rparr>\<rparr>)"

definition classResolver_reset :: "engine \<Rightarrow> engine" where
  "classResolver_reset e =
     called ClassReset
       (e\<lparr>fury := (fury e)\<lparr>classResolver := class_reset (classResolver (fury e))\<rparr>\<rparr>)"

definition binaryReader_reset :: "byte list \<Rightarrow> engine \<Rightarrow> engine" where
  "binaryReader_reset bytes e =
     called (ReaderReset bytes) (with_reader (reader_reset bytes (binaryReader (fury e))) e)"

definition binaryReader_uint8 :: "engine \<Rightarrow> (error + byte) \<times> engine" where
  "binaryReader_uint8 e =
     (case reader_uint8 (binaryReader (fury e)) of
        (res, r) \<Rightarrow> (res, called ReaderUint8 (with_reader r e)))"

definition binaryReader_int32 :: "engine \<Rightarrow> (error + 32 word) \<times> engine" where
  "binaryReader_int32 e =
     (case reader_int32 (binaryReader (fury e)) of
        (res, r) \<Rightarrow> (res, called ReaderInt32 (with_reader r e)))"

definition binaryWriter_reset :: "engine \<Rightarrow> (error + unit) \<times> engine" where
  "binaryWriter_reset e =
     (case writer_reset (binaryWriter (fury e)) of
        Inl err \<Rightarrow> (Inl err, called WriterReset e)
      | Inr w \<Rightarrow> (Inr (), called WriterReset (with_writer w e)))"

definition binaryWriter_uint8 :: "byte \<Rightarrow> engine \<Rightarrow> engine" where
  "binaryWriter_uint8 v e =
     called (WriterUint8 v) (with_writer (writer_uint8 v (binaryWriter (fury e))) e)"

definition binaryWriter_getCursor :: "engine \<Rightarrow> nat \<times> engine" where
  "binaryWriter_getCursor e =
     (writer_getCursor (binaryWriter (fury e)),
      called (WriterGetCursor (writer_getCursor (binaryWriter (fury e)))) e)"

definition binaryWriter_skip :: "nat \<Rightarrow> engine \<Rightarrow> engine" where
  "binaryWriter_skip n e =
     called (WriterSkip n) (with_writer (writer_skip n (binaryWriter (fury e))) e)"

definition binaryWriter_uint32 :: "32 word \<Rightarrow> engine \<Rightarrow> engine" where
  "binaryWriter_uint32 v e =
     called (WriterUint32 v) (with_writer (writer_uint32 v (binaryWriter (fury e))) e)"

definition binaryWriter_reserve :: "nat \<Rightarrow> engine \<Rightarrow> engine" where
  "binaryWriter_reserve n e =
     called (WriterReserve n) (with_writer (writer_reserve n (binaryWriter (fury e))) e)"

definition binaryWriter_setUint32Position :: "nat \<Rightarrow> nat \<Rightarrow> engine \<Rightarrow> (error + unit) \<times> engine" where
  "binaryWriter_setUint32Position pos v e =
     (case writer_setUint32Position pos v (binaryWriter (fury e)) of
        Inl err \<Rightarrow> (Inl err, called (WriterSetUint32Position pos v) e)
      | Inr w \<Rightarrow> (Inr (), called (WriterSetUint32Position pos v) (with_writer w e)))"

definition binaryWriter_dump :: "engine \<Rightarrow> byte list \<times> engine" where
  "binaryWriter_dump e = (writer_dump (binaryWriter (fury e)), called WriterDump e)"

definition binaryWriter_dumpAndOwn :: "engine \<Rightarrow> (error + View) \<times> engine" where
  "binaryWriter_dumpAndOwn e =
     (case writer_dumpAndOwn (binaryWriter (fury e)) of
        (res, w) \<Rightarrow> (res, called WriterDumpAndOwn (with_writer w e)))"

definition serializer_write :: "'v Serializer \<Rightarrow> 'v option \<Rightarrow> engine \<Rightarrow> (error + unit) \<times> engine" where
  "serializer_write serializer data e =
     (case write_routine serializer data (fury e) of
        (res, f) \<Rightarrow> (res, called SerializerWrite (e\<lparr>fury := f\<rparr>)))"

definition serializer_read :: "'v Serializer \<Rightarrow> engine \<Rightarrow> (error + 'v option) \<times> engine" where
  "serializer_read serializer e =
     (case read_routine serializer (fury e) of
        (res, f) \<Rightarrow> (res, called SerializerRead (e\<lparr>fury := f\<rparr>)))"

text \<open>The caller invoking the disposer of a view on the engine's Writer.\<close>

definition invoke_dispose :: "View \<Rightarrow> engine \<Rightarrow> engine" where
  "invoke_dispose v e = with_writer (dispose v (binaryWriter (fury e))) e"

subsection \<open>constructor\<close>

definition constructor :: "(nat \<times> string) list \<Rightarrow> Config option \<Rightarrow> engine" where
  "constructor builtins arg =
     (let config = (case arg of
                      None \<Rightarrow> \<lparr>refTracking = False, useSliceString = False, hooks = Map.empty\<rparr>
                    | Some c \<Rightarrow> c)
      in \<lparr>fury = \<lparr>config = config,
                  binaryReader = BinaryReader_new config,
                  binaryWriter = BinaryWriter_new config,
                  classResolver = class_init builtins ClassResolver_new,
                  referenceResolver = ReferenceResolver_new config\<rparr>,
          history = []\<rparr>)"

subsection \<open>deserialize\<close>

definition deserialize :: "byte list \<Rightarrow> 'v Serializer \<Rightarrow> engine \<Rightarrow> (error + 'v option) \<times> engine" where
  "deserialize bytes serializer e0 =
     (let e1 = referenceResolver_reset e0;
          e2 = classResolver_reset e1;
          e3 = binaryReader_reset bytes e2
      in case binaryReader_uint8 e3 of
           (Inl err, e4) \<Rightarrow> (Inl err, e4)
         | (Inr bitmap, e4) \<Rightarrow>
            (if bitmap AND isNullFlag = isNullFlag then (Inr None, e4)
             else
               let isLittleEndian = (bitmap AND isLittleEndianFlag = isLittleEndianFlag)
               in if \<not> isLittleEndian
                  then (Inl (Error ''big endian is not supported now''), e4)
                  else
                    let isCrossLanguage = (bitmap AND isCrossLanguageFlag = isCrossLanguageFlag)
                    in if \<not> isCrossLanguage
                       then (Inl (Error ''support crosslanguage mode only''), e4)
                       else
                        (case binaryReader_uint8 e4 of
                           (Inl err, e5) \<Rightarrow> (Inl err, e5)
                         | (Inr language, e5) \<Rightarrow>
                            (let isOutOfBandEnabled = (bitmap AND isOutOfBandFlag = isOutOfBandFlag)
                             in if isOutOfBandEnabled
                                then (Inl (Error ''outofband mode is not supported now''), e5)
                                else
                                 (case binaryReader_int32 e5 of
                                    (Inl err, e6) \<Rightarrow> (Inl err, e6)
                                  | (Inr nativeOffset, e6) \<Rightarrow>
                                     (case binaryReader_int32 e6 of
                                        (Inl err, e7) \<Rightarrow> (Inl err, e7)
                                      | (Inr nativeSize, e7) \<Rightarrow>
                                          serializer_read serializer e7))))))"

subsection \<open>serializeInternal, serialize, serializeVolatile\<close>

text \<open>\<open>Language.XLANG\<close> (./type is not part of the sources, and the spec gives the
  language tag no value) is the parameter \<open>XLANG\<close>.\<close>

definition serializeInternal :: "byte \<Rightarrow> 'v option \<Rightarrow> 'v Serializer \<Rightarrow> engine \<Rightarrow> (error + unit) \<times> engine" where
  "serializeInternal XLANG data serializer e0 =
     (case binaryWriter_reset e0 of
        (Inl err, e1) \<Rightarrow>
         (if err = OwnershipError
          then (Inl (Error ''Permission denied. To release the serialization ownership, you must call the dispose function returned by serializeVolatile.''), e1)
          else (Inl err, e1))
      | (Inr u, e1) \<Rightarrow>
         (let e2 = referenceResolver_reset e1;
              e3 = classResolver_reset e2;
              bitmap = 0;
              bitmap = (if data = None then bitmap OR isNullFlag else bitmap);
              bitmap = bitmap OR isLittleEndianFlag;
              bitmap = bitmap OR isCrossLanguageFlag;
              e4 = binaryWriter_uint8 bitmap e3;
              e5 = binaryWriter_uint8 XLANG e4;
              (cursor, e6) = binaryWriter_getCursor e5;
              e7 = binaryWriter_skip 4 e6;
              e8 = binaryWriter_uint32 0 e7;
              e9 = binaryWriter_reserve (fixedSize serializer) e8
          in case serializer_write serializer data e9 of
               (Inl err, e10) \<Rightarrow> (Inl err, e10)
             | (Inr u, e10) \<Rightarrow>
                 let (cursor', e11) = binaryWriter_getCursor e10
                 in binaryWriter_setUint32Position cursor cursor' e11))"

definition serialize :: "byte \<Rightarrow> 'v option \<Rightarrow> 'v Serializer \<Rightarrow> engine \<Rightarrow> (error + byte list) \<times> engine" where
  "serialize XLANG data serializer e =
     (case serializeInternal XLANG data serializer e of
        (Inl err, e') \<Rightarrow> (Inl err, e')
      | (Inr u, e') \<Rightarrow> (case binaryWriter_dump e' of (bytes, e'') \<Rightarrow> (Inr bytes, e'')))"

definition serializeVolatile :: "byte \<Rightarrow> 'v option \<Rightarrow> 'v Serializer \<Rightarrow> engine \<Rightarrow> (error + View) \<times> engine" where
  "serializeVolatile XLANG data serializer e =
     (case serializeInternal XLANG data serializer e of
        (Inl err, e') \<Rightarrow> (Inl err, e')
      | (Inr u, e') \<Rightarrow> binaryWriter_dumpAndOwn e')"

subsection \<open>registerSerializer\<close>

text \<open>
  \<open>generateSerializer(this, description)\<close> (./gen is not part of the sources) is the
  parameter \<open>gen\<close>: it is handed the engine, which it may change, and returns the
  codec or throws.
\<close>

record 'v Registered =
  reg_serializer :: "'v Serializer"
  reg_serialize :: "'v option \<Rightarrow> engine \<Rightarrow> (error + byte list) \<times> engine"
  reg_serializeVolatile :: "'v option \<Rightarrow> engine \<Rightarrow> (error + View) \<times> engine"
  reg_deserialize :: "byte list \<Rightarrow> engine \<Rightarrow> (error + 'v option) \<times> engine"

definition generateSerializer :: "('d \<Rightarrow> Fury \<Rightarrow> (error + 'v Serializer) \<times> Fury) \<Rightarrow> 'd \<Rightarrow> engine \<Rightarrow> (error + 'v Serializer) \<times> engine" where
  "generateSerializer gen description e =
     (case gen description (fury e) of
        (res, f) \<Rightarrow> (res, called GenerateSerializer (e\<lparr>fury := f\<rparr>)))"

definition registerSerializer :: "byte \<Rightarrow> ('d \<Rightarrow> Fury \<Rightarrow> (error + 'v Serializer) \<times> Fury) \<Rightarrow> 'd \<Rightarrow> engine \<Rightarrow> (error + 'v Registered) \<times> engine" where
  "registerSerializer XLANG gen description e =
     (case generateSerializer gen description e of
        (Inl err, e') \<Rightarrow> (Inl err, e')
      | (Inr serializer, e') \<Rightarrow>
          (Inr \<lparr>reg_serializer = serializer,
                reg_serialize = (\<lambda>data. serialize XLANG data serializer),
                reg_serializeVolatile = (\<lambda>data. serializeVolatile XLANG data serializer),
                reg_deserialize = (\<lambda>bytes. deserialize bytes serializer)\<rparr>,
           e'))"

section \<open>The error kinds of the spec\<close>

definition OwnershipViolation :: "error \<Rightarrow> bool" where
  "OwnershipViolation err \<longleftrightarrow>
     err = Error ''Permission denied. To release the serialization ownership, you must call the dispose function returned by serializeVolatile.''"

definition ProtocolViolation :: "error \<Rightarrow> bool" where
  "ProtocolViolation err \<longleftrightarrow>
     err = Error ''big endian is not supported now''
     \<or> err = Error ''support crosslanguage mode only''
     \<or> err = Error ''outofband mode is not supported now''"

section \<open>Notions used in the statements\<close>

subsection \<open>Codecs that append\<close>

text \<open>The Writer's logical length does not exceed its capacity.\<close>

definition wf_writer :: "BinaryWriter \<Rightarrow> bool" where
  "wf_writer w \<longleftrightarrow> cursor w \<le> length (storage w)"

text \<open>
  A codec whose write routine always returns normally and only appends a payload to
  what the Writer holds, leaving the ownership marker alone: what a codec built from
  the Writer's positional writes does.
\<close>

definition appends :: "'v Serializer \<Rightarrow> bool" where
  "appends s \<longleftrightarrow>
     (\<forall>d f. \<exists>f' payload.
        write_routine s d f = (Inr (), f')
        \<and> locked (binaryWriter f') = locked (binaryWriter f)
        \<and> (wf_writer (binaryWriter f) \<longrightarrow>
             wf_writer (binaryWriter f')
             \<and> writer_dump (binaryWriter f') = writer_dump (binaryWriter f) @ payload))"

subsection \<open>The engine as the codec's write routine finds it\<close>

text \<open>The bitmap of lines 102 to 107 of fury.ts.\<close>

definition header_bitmap :: "'v option \<Rightarrow> byte" where
  "header_bitmap data =
     ((if data = None then 0 OR isNullFlag else 0) OR isLittleEndianFlag) OR isCrossLanguageFlag"

definition header_writer :: "byte \<Rightarrow> byte \<Rightarrow> nat \<Rightarrow> BinaryWriter \<Rightarrow> BinaryWriter" where
  "header_writer bitmap XLANG hint w =
     writer_reserve hint (writer_uint32 0 (writer_skip 4
       (writer_uint8 XLANG (writer_uint8 bitmap (w\<lparr>cursor := 0\<rparr>)))))"

definition codec_input :: "byte \<Rightarrow> 'v option \<Rightarrow> 'v Serializer \<Rightarrow> Fury \<Rightarrow> Fury" where
  "codec_input XLANG data serializer f =
     f\<lparr>binaryWriter := header_writer (header_bitmap data) XLANG (fixedSize serializer) (binaryWriter f),
       classResolver := class_reset (classResolver f),
       referenceResolver := resolver_reset (referenceResolver f)\<rparr>"

definition header_calls :: "byte \<Rightarrow> byte \<Rightarrow> nat \<Rightarrow> call list" where
  "header_calls bitmap XLANG hint =
     [WriterReset, RefReset, ClassReset, WriterUint8 bitmap, WriterUint8 XLANG,
      WriterGetCursor 2, WriterSkip 4, WriterUint32 0, WriterReserve hint]"

subsection \<open>The write path in the words of the spec\<close>

text \<open>
  Section 4.1 of the spec, steps (1) to (9): reset the Writer; reset the Reference and
  Class Resolvers; write the bitmap; write the language tag; record the cursor, leave a
  4-byte placeholder, write a 4-byte zero count; pre-reserve the fixed-size hint; invoke
  the codec's write routine; patch the placeholder at the recorded cursor \<open>pos\<close> with
  the post-write cursor \<open>cur\<close>; extract the output.
\<close>

definition write_path :: "byte \<Rightarrow> byte \<Rightarrow> nat \<Rightarrow> nat \<Rightarrow> nat \<Rightarrow> call \<Rightarrow> call list" where
  "write_path bitmap XLANG hint pos cur extract =
     [WriterReset,
      RefReset, ClassReset,
      WriterUint8 bitmap,
      WriterUint8 XLANG,
      WriterGetCursor pos, WriterSkip 4, WriterUint32 0,
      WriterReserve hint,
      SerializerWrite,
      WriterGetCursor cur, WriterSetUint32Position pos cur,
      extract]"

subsection \<open>Per-call resolver state left behind by an earlier call\<close>

definition stale :: "ReferenceResolver \<Rightarrow> (string \<times> nat) list \<Rightarrow> engine \<Rightarrow> engine" where
  "stale r t e =
     e\<lparr>fury := (fury e)\<lparr>classResolver := (classResolver (fury e))\<lparr>transient := t\<rparr>,
                         referenceResolver := r\<rparr>\<rparr>"

subsection \<open>Resolver state that is empty\<close>

definition resolvers_empty :: "Fury \<Rightarrow> bool" where
  "resolvers_empty f \<longleftrightarrow>
     referenceResolver f = \<lparr>writeObjects = [], readObjects = []\<rparr> \<and> transient (classResolver f) = []"

subsection \<open>Sequences of calls of a caller\<close>

text \<open>
  What a caller does with an engine: \<open>serialize\<close>, \<open>serializeVolatile\<close> (a view
  that is returned is kept, in the order of the calls), \<open>deserialize\<close>, and invoking
  the disposer of the \<open>i\<close>-th view it has been given, whether invoked before or not
  (a disposer it has not been given cannot be invoked).
\<close>

datatype 'v action =
    Serialize "'v option" | SerializeVolatile "'v option" | Deserialize "byte list" | Dispose nat

fun act :: "byte \<Rightarrow> 'v Serializer \<Rightarrow> 'v action \<Rightarrow> engine \<times> View list \<Rightarrow> engine \<times> View list" where
  "act XLANG serializer (Serialize data) (e, views) =
     (snd (serialize XLANG data serializer e), views)"
| "act XLANG serializer (SerializeVolatile data) (e, views) =
     (case serializeVolatile XLANG data serializer e of
        (Inl err, e') \<Rightarrow> (e', views)
      | (Inr view, e') \<Rightarrow> (e', views @ [view]))"
| "act XLANG serializer (Deserialize bytes) (e, views) =
     (snd (deserialize bytes serializer e), views)"
| "act XLANG serializer (Dispose i) (e, views) =
     (if i < length views then (invoke_dispose (views ! i) e, views) else (e, views))"

definition run :: "byte \<Rightarrow> 'v Serializer \<Rightarrow> 'v action list \<Rightarrow> engine \<times> View list \<Rightarrow> engine \<times> View list" where
  "run XLANG serializer actions s = foldl (\<lambda>s a. act XLANG serializer a s) s actions"

text \<open>
  The pending-release marker and the number of views handed out, read off the
  sequence of calls alone: \<open>serialize\<close> and \<open>deserialize\<close> leave the marker as it
  is; after
  \<open>serializeVolatile\<close> it is set (by this call, which then hands out one more view,
  or already before it); the disposer of any view handed out clears it.
\<close>

fun marker_after :: "'v action \<Rightarrow> bool \<times> nat \<Rightarrow> bool \<times> nat" where
  "marker_after (Serialize data) (m, n) = (m, n)"
| "marker_after (SerializeVolatile data) (m, n) = (True, if m then n else Suc n)"
| "marker_after (Deserialize bytes) (m, n) = (m, n)"
| "marker_after (Dispose i) (m, n) = (if i < n then False else m, n)"

definition marker :: "'v action list \<Rightarrow> bool \<times> nat \<Rightarrow> bool \<times> nat" where
  "marker actions s = foldl (\<lambda>s a. marker_after a s) s actions"

text \<open>A codec whose read routine leaves the Writer's marker alone.\<close>

definition keeps_marker :: "'v Serializer \<Rightarrow> bool" where
  "keeps_marker s \<longleftrightarrow>
     (\<forall>f. locked (binaryWriter (snd (read_routine s f))) = locked (binaryWriter f))"

text \<open>The engine and the views of a caller agree with a marker and a number of views;
  every view's disposer clears the marker.\<close>

definition tracks :: "engine \<times> View list \<Rightarrow> bool \<times> nat \<Rightarrow> bool" where
  "tracks s mn \<longleftrightarrow>
     locked (binaryWriter (fury (fst s))) = fst mn
     \<and> length (snd s) = snd mn
     \<and> list_all (\<lambda>view. dispose view = (\<lambda>w. w\<lparr>locked := False\<rparr>)) (snd s)"

subsection \<open>A concrete codec and a concrete compiler\<close>

text \<open>
  A codec for single bytes, for the closed instances below: it writes nothing for
  \<open>null\<close> and one byte otherwise, noting the value in the Reference Resolver; it
  reads one byte back.
\<close>

definition byteCodec :: "byte Serializer" where
  "byteCodec =
     \<lparr>fixedSize = 1,
      write_routine = (\<lambda>data f. case data of
          None \<Rightarrow> (Inr (), f)
        | Some v \<Rightarrow>
            (Inr (), f\<lparr>binaryWriter := writer_uint8 v (binaryWriter f),
                       referenceResolver := (referenceResolver f)
                         \<lparr>writeObjects := writeObjects (referenceResolver f)
                              @ [(unat v, length (writeObjects (referenceResolver f)))]\<rparr>\<rparr>)),
      read_routine = (\<lambda>f. case reader_uint8 (binaryReader f) of
          (Inl err, r) \<Rightarrow> (Inl err, f\<lparr>binaryReader := r\<rparr>)
        | (Inr v, r) \<Rightarrow> (Inr (Some v), f\<lparr>binaryReader := r\<rparr>))\<rparr>"

definition genByte :: "string \<Rightarrow> Fury \<Rightarrow> (error + byte Serializer) \<times> Fury" where
  "genByte description f =
     (Inr byteCodec,
      f\<lparr>classResolver := (classResolver f)
           \<lparr>typeTable := typeTable (classResolver f)
                @ [(length (typeTable (classResolver f)), description)]\<rparr>\<rparr>)"

section \<open>The Writer's primitives on what has been written\<close>

lemmas call_defs = called_def with_writer_def with_reader_def referenceResolver_reset_def
  classResolver_reset_def binaryReader_reset_def binaryReader_uint8_def binaryReader_int32_def
  binaryWriter_reset_def binaryWriter_uint8_def binaryWriter_getCursor_def binaryWriter_skip_def
  binaryWriter_uint32_def binaryWriter_reserve_def binaryWriter_setUint32Position_def
  binaryWriter_dump_def binaryWriter_dumpAndOwn_def serializer_write_def serializer_read_def

lemmas flag_defs = isNullFlag_def isLittleEndianFlag_def isCrossLanguageFlag_def isOutOfBandFlag_def

lemma put_at_cursor:
  "c \<le> length st \<Longrightarrow>
   take (c + length bs) (put_bytes c bs (st @ replicate (c + length bs - length st) 0)) = take c st @ bs"
  by (simp add: put_bytes_def)

lemma put_at_cursor_length:
  "c \<le> length st \<Longrightarrow>
   c + length bs \<le> length (put_bytes c bs (st @ replicate (c + length bs - length st) 0))"
  by (simp add: put_bytes_def)

lemma length_le32: "length (le32 v) = 4"
  by (simp add: le32_def)

lemma uint8_dump:
  assumes "wf_writer w"
  shows "writer_dump (writer_uint8 v w) = writer_dump w @ [v]"
    and "wf_writer (writer_uint8 v w)"
    and "cursor (writer_uint8 v w) = cursor w + 1"
    and "locked (writer_uint8 v w) = locked w"
  using assms put_at_cursor [of "cursor w" "storage w" "[v]"] put_at_cursor_length [of "cursor w" "storage w" "[v]"]
  by (simp_all add: writer_uint8_def writer_reserve_def writer_dump_def wf_writer_def Let_def)

lemma uint32_dump:
  assumes "wf_writer w"
  shows "writer_dump (writer_uint32 v w) = writer_dump w @ le32 v"
    and "wf_writer (writer_uint32 v w)"
    and "cursor (writer_uint32 v w) = cursor w + 4"
    and "locked (writer_uint32 v w) = locked w"
  using assms put_at_cursor [of "cursor w" "storage w" "le32 v"] put_at_cursor_length [of "cursor w" "storage w" "le32 v"]
  by (simp_all add: writer_uint32_def writer_reserve_def writer_dump_def wf_writer_def Let_def length_le32)

lemma skip_dump:
  assumes "wf_writer w"
  shows "\<exists>gap. length gap = n \<and> writer_dump (writer_skip n w) = writer_dump w @ gap"
    and "wf_writer (writer_skip n w)"
    and "cursor (writer_skip n w) = cursor w + n"
    and "locked (writer_skip n w) = locked w"
proof -
  let ?st = "storage w @ replicate (cursor w + n - length (storage w)) 0"
  let ?gap = "drop (cursor w) (take (cursor w + n) ?st)"
  have len: "cursor w + n \<le> length ?st" by simp
  have "take (cursor w) (take (cursor w + n) ?st) @ ?gap = take (cursor w + n) ?st"
    by (rule append_take_drop_id)
  moreover have "take (cursor w) (take (cursor w + n) ?st) = take (cursor w) (storage w)"
    using assms by (simp add: wf_writer_def)
  moreover have "length ?gap = n"
    using len by simp
  ultimately have "length ?gap = n \<and> writer_dump (writer_skip n w) = writer_dump w @ ?gap"
    by (simp add: writer_dump_def writer_skip_def writer_reserve_def)
  then show "\<exists>gap. length gap = n \<and> writer_dump (writer_skip n w) = writer_dump w @ gap"
    by blast
  show "wf_writer (writer_skip n w)"
    by (simp add: writer_skip_def writer_reserve_def wf_writer_def)
  show "cursor (writer_skip n w) = cursor w + n"
    by (simp add: writer_skip_def writer_reserve_def)
  show "locked (writer_skip n w) = locked w"
    by (simp add: writer_skip_def writer_reserve_def)
qed

lemma reserve_dump:
  assumes "wf_writer w"
  shows "writer_dump (writer_reserve n w) = writer_dump w"
    and "wf_writer (writer_reserve n w)"
    and "cursor (writer_reserve n w) = cursor w"
    and "locked (writer_reserve n w) = locked w"
  using assms by (simp_all add: writer_reserve_def writer_dump_def wf_writer_def)

lemma take_put_bytes:
  assumes "pos + length bs \<le> c" and "c \<le> length st"
  shows "take c (put_bytes pos bs st) = put_bytes pos bs (take c st)"
proof -
  have "take c (take pos st @ bs @ drop (pos + length bs) st)
        = take pos st @ bs @ take (c - (pos + length bs)) (drop (pos + length bs) st)"
    using assms by simp
  moreover have "drop (pos + length bs) (take c st) = take (c - (pos + length bs)) (drop (pos + length bs) st)"
    by (simp add: drop_take)
  moreover have "take pos (take c st) = take pos st"
    using assms by simp
  ultimately show ?thesis
    by (simp only: put_bytes_def)
qed

lemma patch_dump:
  assumes "wf_writer w" and "pos + 4 \<le> cursor w"
  shows "\<exists>w'. writer_setUint32Position pos v w = Inr w'
          \<and> writer_dump w' = put_bytes pos (le32 (of_nat v)) (writer_dump w)
          \<and> cursor w' = cursor w \<and> locked w' = locked w \<and> wf_writer w'"
proof -
  have "take (cursor w) (put_bytes pos (le32 (of_nat v)) (storage w))
        = put_bytes pos (le32 (of_nat v)) (take (cursor w) (storage w))"
    using assms by (intro take_put_bytes) (simp_all add: length_le32 wf_writer_def)
  moreover have "length (put_bytes pos (le32 (of_nat v)) (storage w)) = length (storage w)"
    using assms by (simp add: put_bytes_def length_le32 wf_writer_def)
  ultimately show ?thesis
    using assms by (simp add: writer_setUint32Position_def writer_dump_def wf_writer_def)
qed


section \<open>The write path, run symbolically\<close>

lemma header_cursor:
  "cursor (writer_uint8 XLANG (writer_uint8 bitmap (w\<lparr>cursor := 0\<rparr>))) = 2"
  by (simp add: writer_uint8_def writer_reserve_def Let_def)

lemma serializeInternal_locked:
  assumes "locked (binaryWriter (fury e))"
  shows "serializeInternal XLANG data serializer e =
           (Inl (Error ''Permission denied. To release the serialization ownership, you must call the dispose function returned by serializeVolatile.''),
            e\<lparr>history := history e @ [WriterReset]\<rparr>)"
  using assms by (simp add: serializeInternal_def binaryWriter_reset_def writer_reset_def called_def)


lemma serialize_locked:
  assumes "locked (binaryWriter (fury e))"
  shows "serialize XLANG data serializer e =
           (Inl (Error ''Permission denied. To release the serialization ownership, you must call the dispose function returned by serializeVolatile.''),
            e\<lparr>history := history e @ [WriterReset]\<rparr>)"
    and "serializeVolatile XLANG data serializer e =
           (Inl (Error ''Permission denied. To release the serialization ownership, you must call the dispose function returned by serializeVolatile.''),
            e\<lparr>history := history e @ [WriterReset]\<rparr>)"
  using serializeInternal_locked [OF assms, of XLANG data serializer]
  by (simp_all add: serialize_def serializeVolatile_def)

lemma serializeInternal_unlocked:
  assumes "\<not> locked (binaryWriter (fury e))"
  shows "serializeInternal XLANG data serializer e =
     (let h = history e @ header_calls (header_bitmap data) XLANG (fixedSize serializer)
      in case write_routine serializer data (codec_input XLANG data serializer (fury e)) of
           (Inl err, f) \<Rightarrow> (Inl err, e\<lparr>fury := f, history := h @ [SerializerWrite]\<rparr>)
         | (Inr u, f) \<Rightarrow>
            (let c = cursor (binaryWriter f);
                 h' = h @ [SerializerWrite, WriterGetCursor c, WriterSetUint32Position 2 c]
             in case writer_setUint32Position 2 c (binaryWriter f) of
                  Inl err \<Rightarrow> (Inl err, e\<lparr>fury := f, history := h'\<rparr>)
                | Inr w \<Rightarrow> (Inr (), e\<lparr>fury := f\<lparr>binaryWriter := w\<rparr>, history := h'\<rparr>)))"
proof -
  let ?w = "header_writer (header_bitmap data) XLANG (fixedSize serializer) (binaryWriter (fury e))"
  obtain res f where wr: "write_routine serializer data (codec_input XLANG data serializer (fury e)) = (res, f)"
    by (cases "write_routine serializer data (codec_input XLANG data serializer (fury e))")
  have r: "binaryWriter_reset e = (Inr (), called WriterReset (with_writer ((binaryWriter (fury e))\<lparr>cursor := 0\<rparr>) e))"
    using assms by (simp add: binaryWriter_reset_def writer_reset_def)
  have ci: "\<And>b. (fury e)\<lparr>referenceResolver := resolver_reset (referenceResolver (fury e)),
        classResolver := class_reset (classResolver (fury e)),
        binaryWriter := writer_reserve (fixedSize serializer) (writer_uint32 0 (writer_skip 4
           (writer_uint8 XLANG (writer_uint8 (header_bitmap data) ((binaryWriter (fury e))\<lparr>cursor := 0\<rparr>)))))\<rparr>
        = codec_input XLANG data serializer (fury e)"
    by (simp add: codec_input_def header_writer_def)
  show ?thesis
    unfolding serializeInternal_def r Let_def header_bitmap_def[symmetric]
    by (cases res)
       (simp_all add: call_defs ci wr header_cursor header_calls_def writer_getCursor_def split: sum.splits)
qed


lemma header_writer_dump:
  "\<exists>gap. length gap = 4
      \<and> writer_dump (header_writer bitmap XLANG hint w) = [bitmap, XLANG] @ gap @ le32 0
      \<and> wf_writer (header_writer bitmap XLANG hint w)
      \<and> locked (header_writer bitmap XLANG hint w) = locked w"
proof -
  let ?w0 = "w\<lparr>cursor := 0\<rparr>"
  let ?w1 = "writer_uint8 bitmap ?w0"
  let ?w2 = "writer_uint8 XLANG ?w1"
  let ?w3 = "writer_skip 4 ?w2"
  let ?w4 = "writer_uint32 0 ?w3"
  have w0: "wf_writer ?w0" "writer_dump ?w0 = []" "locked ?w0 = locked w"
    by (simp_all add: wf_writer_def writer_dump_def)
  have w1: "wf_writer ?w1" "writer_dump ?w1 = [bitmap]" "locked ?w1 = locked w"
    using uint8_dump [OF w0(1), of bitmap] w0 by simp_all
  have w2: "wf_writer ?w2" "writer_dump ?w2 = [bitmap, XLANG]" "locked ?w2 = locked w"
    using uint8_dump [OF w1(1), of XLANG] w1 by simp_all
  obtain gap where gap: "length gap = 4" "writer_dump ?w3 = [bitmap, XLANG] @ gap"
    using skip_dump(1) [OF w2(1), of 4] w2(2) by auto
  have w3: "wf_writer ?w3" "locked ?w3 = locked w"
    using skip_dump [OF w2(1), of 4] w2 by simp_all
  have w4: "wf_writer ?w4" "writer_dump ?w4 = [bitmap, XLANG] @ gap @ le32 0" "locked ?w4 = locked w"
    using uint32_dump [OF w3(1), of 0] w3 gap by simp_all
  have "wf_writer (writer_reserve hint ?w4)"
    and "writer_dump (writer_reserve hint ?w4) = [bitmap, XLANG] @ gap @ le32 0"
    and "locked (writer_reserve hint ?w4) = locked w"
    using reserve_dump [OF w4(1), of hint] w4 by simp_all
  with gap(1) show ?thesis
    unfolding header_writer_def by blast
qed

lemma dump_length: "wf_writer w \<Longrightarrow> length (writer_dump w) = cursor w"
  by (simp add: wf_writer_def writer_dump_def)

lemma put_bytes_gap:
  "length gap = length bs \<Longrightarrow> put_bytes 2 bs (a # b # gap @ post) = a # b # bs @ post"
  by (simp add: put_bytes_def)

lemma serializeInternal_payload:
  assumes "\<not> locked (binaryWriter (fury e))" and "appends serializer"
  shows "\<exists>f' gap payload e'.
           write_routine serializer data (codec_input XLANG data serializer (fury e)) = (Inr (), f')
           \<and> length gap = 4
           \<and> writer_dump (binaryWriter (codec_input XLANG data serializer (fury e)))
               = [header_bitmap data, XLANG] @ gap @ le32 0
           \<and> writer_dump (binaryWriter f')
               = writer_dump (binaryWriter (codec_input XLANG data serializer (fury e))) @ payload
           \<and> serializeInternal XLANG data serializer e = (Inr (), e')
           \<and> writer_dump (binaryWriter (fury e'))
               = [header_bitmap data, XLANG] @ le32 (of_nat (10 + length payload)) @ le32 0 @ payload
           \<and> \<not> locked (binaryWriter (fury e'))"
proof -
  let ?f = "codec_input XLANG data serializer (fury e)"
  let ?hw = "header_writer (header_bitmap data) XLANG (fixedSize serializer) (binaryWriter (fury e))"
  have bw: "binaryWriter ?f = ?hw"
    by (simp add: codec_input_def)
  obtain gap where gap: "length gap = 4"
      and hd: "writer_dump ?hw = [header_bitmap data, XLANG] @ gap @ le32 0"
      and hwf: "wf_writer ?hw" and hl: "locked ?hw = locked (binaryWriter (fury e))"
    using header_writer_dump [of "header_bitmap data" XLANG "fixedSize serializer" "binaryWriter (fury e)"]
    by blast
  from assms(2) obtain f' payload where wr: "write_routine serializer data ?f = (Inr (), f')"
      and l': "locked (binaryWriter f') = locked (binaryWriter ?f)"
      and ap: "wf_writer (binaryWriter ?f) \<longrightarrow>
                 wf_writer (binaryWriter f')
                 \<and> writer_dump (binaryWriter f') = writer_dump (binaryWriter ?f) @ payload"
    unfolding appends_def by blast
  from ap bw hwf hd have wf': "wf_writer (binaryWriter f')"
      and d': "writer_dump (binaryWriter f') = [header_bitmap data, XLANG] @ gap @ le32 0 @ payload"
    by simp_all
  have c': "cursor (binaryWriter f') = 10 + length payload"
    using dump_length [OF wf'] d' gap by (simp add: length_le32)
  then have "2 + 4 \<le> cursor (binaryWriter f')" by simp
  from patch_dump [OF wf' this, of "cursor (binaryWriter f')"]
  obtain w' where p: "writer_setUint32Position 2 (cursor (binaryWriter f')) (binaryWriter f') = Inr w'"
      and pd: "writer_dump w' = put_bytes 2 (le32 (of_nat (cursor (binaryWriter f')))) (writer_dump (binaryWriter f'))"
      and pl: "locked w' = locked (binaryWriter f')"
    by blast
  have "put_bytes 2 (le32 (of_nat (10 + length payload)))
          (header_bitmap data # XLANG # gap @ (le32 0 @ payload))
        = header_bitmap data # XLANG # le32 (of_nat (10 + length payload)) @ (le32 0 @ payload)"
    by (rule put_bytes_gap) (simp add: gap length_le32)
  with pd d' c' have dump: "writer_dump w'
        = [header_bitmap data, XLANG] @ le32 (of_nat (10 + length payload)) @ le32 0 @ payload"
    by simp
  have nl: "\<not> locked w'"
    using pl l' bw hl assms(1) by simp
  let ?e' = "e\<lparr>fury := f'\<lparr>binaryWriter := w'\<rparr>,
               history := history e @ header_calls (header_bitmap data) XLANG (fixedSize serializer)
                 @ [SerializerWrite, WriterGetCursor (cursor (binaryWriter f')),
                    WriterSetUint32Position 2 (cursor (binaryWriter f'))]\<rparr>"
  have "serializeInternal XLANG data serializer e = (Inr (), ?e')"
    using serializeInternal_unlocked [OF assms(1), of XLANG data serializer] wr p
    by (simp add: Let_def)
  moreover have "binaryWriter (fury ?e') = w'"
    by simp
  moreover have "writer_dump (binaryWriter f') = writer_dump (binaryWriter ?f) @ payload"
    using d' hd bw by simp
  ultimately show ?thesis
    using dump nl wr gap hd bw
    by (intro exI [of _ f'] exI [of _ gap] exI [of _ payload] exI [of _ ?e']) (simp only: simp_thms)
qed

lemma serializeInternal_appends:
  assumes "\<not> locked (binaryWriter (fury e))" and "appends serializer"
  shows "\<exists>payload e'.
           serializeInternal XLANG data serializer e = (Inr (), e')
           \<and> writer_dump (binaryWriter (fury e'))
               = [header_bitmap data, XLANG] @ le32 (of_nat (10 + length payload)) @ le32 0 @ payload
           \<and> \<not> locked (binaryWriter (fury e'))"
  using serializeInternal_payload [OF assms, of data XLANG] by blast



section \<open>The fresh engine\<close>

lemma constructor_history: "history (constructor builtins arg) = []"
  by (simp add: constructor_def Let_def)

lemma constructor_unlocked: "\<not> locked (binaryWriter (fury (constructor builtins arg)))"
  by (simp add: constructor_def Let_def BinaryWriter_new_def)

section \<open>Construction\<close>

text \<open>
  C10: an engine constructed without a configuration argument has
  \<open>refTracking = false\<close>, \<open>useSliceString = false\<close> and an empty hooks table, so
  reference tracking is off by default; a configuration that is given is taken as it
  is.
\<close>

theorem constructor_default_config:
  "config (fury (constructor builtins None))
     = \<lparr>refTracking = False, useSliceString = False, hooks = Map.empty\<rparr>
   \<and> \<not> refTracking (config (fury (constructor builtins None)))
   \<and> config (fury (constructor builtins (Some c))) = c"
  by (simp add: constructor_def Let_def)

section \<open>The read path\<close>

lemma null_bit: "(flags OR isNullFlag) AND isNullFlag = isNullFlag"
  by (simp add: isNullFlag_def bit_eq_iff bit_simps)

lemma deserialize_null_run:
  assumes "b AND isNullFlag = isNullFlag"
  shows "deserialize (b # rest) serializer e =
           (Inr None,
            e\<lparr>fury := (fury e)\<lparr>binaryReader := \<lparr>input = b # rest, offset = 1\<rparr>,
                                classResolver := class_reset (classResolver (fury e)),
                                referenceResolver := resolver_reset (referenceResolver (fury e))\<rparr>,
              history := history e @ [RefReset, ClassReset, ReaderReset (b # rest), ReaderUint8]\<rparr>)"
  using assms
  by (simp add: deserialize_def call_defs reader_reset_def reader_uint8_def Let_def)

text \<open>
  C5: on an input whose first byte has the null flag set, \<open>deserialize\<close> returns
  \<open>null\<close> having read that one byte: the Reader stands at offset 1, the calls of the
  engine are the two resets, the Reader's reset and one \<open>uint8\<close>, and the codec has
  no part in the outcome (its read routine is not invoked).
\<close>

theorem null_flag_returns_null:
  assumes "b AND isNullFlag = isNullFlag"
  shows "fst (deserialize (b # rest) serializer e) = Inr None
         \<and> binaryReader (fury (snd (deserialize (b # rest) serializer e)))
              = \<lparr>input = b # rest, offset = 1\<rparr>
         \<and> history (snd (deserialize (b # rest) serializer e))
              = history e @ [RefReset, ClassReset, ReaderReset (b # rest), ReaderUint8]
         \<and> deserialize (b # rest) serializer' e = deserialize (b # rest) serializer e"
  using deserialize_null_run [OF assms, of rest serializer e]
    deserialize_null_run [OF assms, of rest serializer' e]
  by simp

theorem null_flag_returns_null_witness:
  "fst (deserialize [7, 1, 10, 0, 0, 0, 0, 0, 0, 0] byteCodec (constructor [] None)) = Inr None
   \<and> binaryReader (fury (snd (deserialize [7, 1, 10, 0, 0, 0, 0, 0, 0, 0] byteCodec (constructor [] None))))
        = \<lparr>input = [7, 1, 10, 0, 0, 0, 0, 0, 0, 0], offset = 1\<rparr>
   \<and> history (snd (deserialize [7, 1, 10, 0, 0, 0, 0, 0, 0, 0] byteCodec (constructor [] None)))
        = [RefReset, ClassReset, ReaderReset [7, 1, 10, 0, 0, 0, 0, 0, 0, 0], ReaderUint8]"
proof -
  have h: "(7 :: byte) AND isNullFlag = isNullFlag"
    by (simp add: isNullFlag_def)
  show ?thesis
    using null_flag_returns_null [OF h, of "[1, 10, 0, 0, 0, 0, 0, 0, 0]" byteCodec "constructor [] None" byteCodec]
    by (simp add: constructor_history)
qed

text \<open>
  C9: the null flag takes precedence over the validation of the header. Whatever the
  other bits of the first byte are (little-endian cleared, cross-language cleared,
  out-of-band set), \<open>deserialize\<close> returns \<open>null\<close> and raises nothing.
\<close>

theorem null_flag_precedes_validation:
  "fst (deserialize ((flags OR isNullFlag) # rest) serializer e) = Inr None"
  using deserialize_null_run [OF null_bit, of flags rest serializer e] by simp

lemma deserialize_big_endian:
  assumes "b AND isNullFlag \<noteq> isNullFlag" and "b AND isLittleEndianFlag \<noteq> isLittleEndianFlag"
  shows "deserialize (b # rest) serializer e =
           (Inl (Error ''big endian is not supported now''),
            e\<lparr>fury := (fury e)\<lparr>binaryReader := \<lparr>input = b # rest, offset = 1\<rparr>,
                                classResolver := class_reset (classResolver (fury e)),
                                referenceResolver := resolver_reset (referenceResolver (fury e))\<rparr>,
              history := history e @ [RefReset, ClassReset, ReaderReset (b # rest), ReaderUint8]\<rparr>)"
  using assms
  by (simp add: deserialize_def call_defs reader_reset_def reader_uint8_def Let_def)

lemma deserialize_single_language:
  assumes "b AND isNullFlag \<noteq> isNullFlag" and "b AND isLittleEndianFlag = isLittleEndianFlag"
    and "b AND isCrossLanguageFlag \<noteq> isCrossLanguageFlag"
  shows "deserialize (b # rest) serializer e =
           (Inl (Error ''support crosslanguage mode only''),
            e\<lparr>fury := (fury e)\<lparr>binaryReader := \<lparr>input = b # rest, offset = 1\<rparr>,
                                classResolver := class_reset (classResolver (fury e)),
                                referenceResolver := resolver_reset (referenceResolver (fury e))\<rparr>,
              history := history e @ [RefReset, ClassReset, ReaderReset (b # rest), ReaderUint8]\<rparr>)"
  using assms
  by (simp add: deserialize_def call_defs reader_reset_def reader_uint8_def Let_def)

lemma deserialize_out_of_band:
  assumes "b AND isNullFlag \<noteq> isNullFlag" and "b AND isLittleEndianFlag = isLittleEndianFlag"
    and "b AND isCrossLanguageFlag = isCrossLanguageFlag" and "b AND isOutOfBandFlag = isOutOfBandFlag"
  shows "deserialize (b # language # rest) serializer e =
           (Inl (Error ''outofband mode is not supported now''),
            e\<lparr>fury := (fury e)\<lparr>binaryReader := \<lparr>input = b # language # rest, offset = 2\<rparr>,
                                classResolver := class_reset (classResolver (fury e)),
                                referenceResolver := resolver_reset (referenceResolver (fury e))\<rparr>,
              history := history e @ [RefReset, ClassReset, ReaderReset (b # language # rest),
                                      ReaderUint8, ReaderUint8]\<rparr>)"
  using assms
  by (simp add: deserialize_def call_defs reader_reset_def reader_uint8_def Let_def)

lemma deserialize_no_language_tag:
  assumes "b AND isNullFlag \<noteq> isNullFlag" and "b AND isLittleEndianFlag = isLittleEndianFlag"
    and "b AND isCrossLanguageFlag = isCrossLanguageFlag"
  shows "deserialize [b] serializer e =
           (Inl OutOfBounds,
            e\<lparr>fury := (fury e)\<lparr>binaryReader := \<lparr>input = [b], offset = 1\<rparr>,
                                classResolver := class_reset (classResolver (fury e)),
                                referenceResolver := resolver_reset (referenceResolver (fury e))\<rparr>,
              history := history e @ [RefReset, ClassReset, ReaderReset [b],
                                      ReaderUint8, ReaderUint8]\<rparr>)"
  using assms
  by (simp add: deserialize_def call_defs reader_reset_def reader_uint8_def Let_def)

text \<open>
  C3, as the code has it: on an input whose first byte has the null flag clear and
  has the little-endian bit cleared, the cross-language bit cleared or the out-of-band
  bit set, \<open>deserialize\<close> fails. It reads the bitmap and at most the language tag
  (the Reader ends at offset 1 or 2, before the offset fields and the payload, which
  starts at offset 10), and the codec has no part in the outcome (its read routine is
  not invoked). The failure is a ProtocolViolation, except on a one-byte input with the
  little-endian and cross-language bits set: the language tag is read before the
  out-of-band check, and there the read fails with the Reader's own failure.
\<close>

theorem deserialize_rejects_mode:
  assumes "b AND isNullFlag \<noteq> isNullFlag"
    and "b AND isLittleEndianFlag \<noteq> isLittleEndianFlag
         \<or> b AND isCrossLanguageFlag \<noteq> isCrossLanguageFlag
         \<or> b AND isOutOfBandFlag = isOutOfBandFlag"
  shows "\<exists>err. fst (deserialize (b # rest) serializer e) = Inl err
           \<and> (if b AND isLittleEndianFlag = isLittleEndianFlag
                  \<and> b AND isCrossLanguageFlag = isCrossLanguageFlag \<and> rest = []
               then err = OutOfBounds else ProtocolViolation err)
           \<and> offset (binaryReader (fury (snd (deserialize (b # rest) serializer e)))) \<le> 2
           \<and> history (snd (deserialize (b # rest) serializer e))
               \<in> {history e @ [RefReset, ClassReset, ReaderReset (b # rest), ReaderUint8],
                   history e @ [RefReset, ClassReset, ReaderReset (b # rest), ReaderUint8, ReaderUint8]}
           \<and> deserialize (b # rest) serializer' e = deserialize (b # rest) serializer e"
proof (cases "b AND isLittleEndianFlag = isLittleEndianFlag")
  case False
  show ?thesis
    using deserialize_big_endian [OF assms(1) False, of rest serializer e]
      deserialize_big_endian [OF assms(1) False, of rest serializer' e] False
    by (simp add: ProtocolViolation_def)
next
  case le: True
  show ?thesis
  proof (cases "b AND isCrossLanguageFlag = isCrossLanguageFlag")
    case False
    show ?thesis
      using deserialize_single_language [OF assms(1) le False, of rest serializer e]
        deserialize_single_language [OF assms(1) le False, of rest serializer' e] False
      by (simp add: ProtocolViolation_def)
  next
    case cross: True
    with le assms(2) have oob: "b AND isOutOfBandFlag = isOutOfBandFlag"
      by simp
    show ?thesis
    proof (cases rest)
      case Nil
      show ?thesis
        using deserialize_no_language_tag [OF assms(1) le cross, of serializer e]
          deserialize_no_language_tag [OF assms(1) le cross, of serializer' e] le cross Nil
        by simp
    next
      case (Cons language rest')
      show ?thesis
        using deserialize_out_of_band [OF assms(1) le cross oob, of language rest' serializer e]
          deserialize_out_of_band [OF assms(1) le cross oob, of language rest' serializer' e] Cons
        by (simp add: ProtocolViolation_def)
    qed
  qed
qed

theorem deserialize_rejects_mode_witness:
  "\<exists>err. fst (deserialize [14, 0, 10, 0, 0, 0, 0, 0, 0, 0] byteCodec (constructor [] None)) = Inl err
      \<and> ProtocolViolation err
      \<and> offset (binaryReader (fury (snd (deserialize [14, 0, 10, 0, 0, 0, 0, 0, 0, 0] byteCodec (constructor [] None))))) \<le> 2"
proof -
  have h: "(14 :: byte) AND isNullFlag \<noteq> isNullFlag"
    "(14 :: byte) AND isLittleEndianFlag \<noteq> isLittleEndianFlag
       \<or> (14 :: byte) AND isCrossLanguageFlag \<noteq> isCrossLanguageFlag
       \<or> (14 :: byte) AND isOutOfBandFlag = isOutOfBandFlag"
    by (simp_all add: flag_defs)
  have g: "(14 :: byte) AND isLittleEndianFlag = isLittleEndianFlag"
    by (simp add: flag_defs)
  show ?thesis
    using deserialize_rejects_mode [OF h, of "[0, 10, 0, 0, 0, 0, 0, 0, 0]" byteCodec "constructor [] None" byteCodec]
    by (auto simp: g)
qed

text \<open>
  C3 as stated fails on the one-byte input \<open>[0x0E]\<close> (null flag clear, out-of-band
  bit set): the failure is not a ProtocolViolation.
\<close>

theorem deserialize_truncated_header_counterexample:
  "(14 :: byte) AND isNullFlag \<noteq> isNullFlag
   \<and> (14 :: byte) AND isOutOfBandFlag = isOutOfBandFlag
   \<and> fst (deserialize [14] byteCodec (constructor [] None)) = Inl OutOfBounds
   \<and> \<not> ProtocolViolation OutOfBounds"
  by (simp add: flag_defs ProtocolViolation_def deserialize_def call_defs reader_reset_def
      reader_uint8_def Let_def)


section \<open>The write path\<close>

lemma appends_byteCodec: "appends byteCodec"
  unfolding appends_def
proof (intro allI)
  fix d :: "byte option" and f :: Fury
  show "\<exists>f' payload. write_routine byteCodec d f = (Inr (), f')
          \<and> locked (binaryWriter f') = locked (binaryWriter f)
          \<and> (wf_writer (binaryWriter f) \<longrightarrow>
               wf_writer (binaryWriter f')
               \<and> writer_dump (binaryWriter f') = writer_dump (binaryWriter f) @ payload)"
  proof (cases d)
    case None
    then show ?thesis
      by (intro exI [of _ f] exI [of _ "[]"]) (simp add: byteCodec_def)
  next
    case (Some v)
    let ?f' = "f\<lparr>binaryWriter := writer_uint8 v (binaryWriter f),
                  referenceResolver := (referenceResolver f)
                    \<lparr>writeObjects := writeObjects (referenceResolver f)
                         @ [(unat v, length (writeObjects (referenceResolver f)))]\<rparr>\<rparr>"
    have "write_routine byteCodec d f = (Inr (), ?f')"
      using Some by (simp add: byteCodec_def)
    moreover have "locked (binaryWriter ?f') = locked (binaryWriter f)"
      by (simp add: writer_uint8_def writer_reserve_def Let_def)
    moreover have "wf_writer (binaryWriter f) \<longrightarrow>
               wf_writer (binaryWriter ?f')
               \<and> writer_dump (binaryWriter ?f') = writer_dump (binaryWriter f) @ [v]"
      using uint8_dump(1,2) [of "binaryWriter f" v] by simp
    ultimately show ?thesis
      by blast
  qed
qed

lemma serialize_appends:
  assumes "\<not> locked (binaryWriter (fury e))" and "appends serializer"
  shows "\<exists>payload. fst (serialize XLANG data serializer e)
           = Inr ([header_bitmap data, XLANG] @ le32 (of_nat (10 + length payload)) @ le32 0 @ payload)"
proof -
  from serializeInternal_appends [OF assms, of XLANG data]
  obtain payload e' where "serializeInternal XLANG data serializer e = (Inr (), e')"
    and "writer_dump (binaryWriter (fury e'))
           = [header_bitmap data, XLANG] @ le32 (of_nat (10 + length payload)) @ le32 0 @ payload"
    by blast
  then have "fst (serialize XLANG data serializer e)
           = Inr ([header_bitmap data, XLANG] @ le32 (of_nat (10 + length payload)) @ le32 0 @ payload)"
    by (simp add: serialize_def binaryWriter_dump_def)
  then show ?thesis ..
qed

lemma header_bitmap_None: "header_bitmap None = 7"
  by (simp add: header_bitmap_def flag_defs)

lemma le32_0: "le32 0 = [0, 0, 0, 0]"
  by (simp add: le32_def)

text \<open>
  C1, as the code has it: the write path has no branch for \<open>null\<close>. With no view
  outstanding and a codec that appends, the codec's write routine is invoked with
  \<open>null\<close> on a Writer that holds the bitmap with the null bit set (7, with the
  little-endian and cross-language bits), the language tag, the 4 skipped bytes and the
  4-byte zero count; \<open>serialize(null)\<close> produces these 10 bytes, the skipped ones
  patched to the length of the stream, followed by the payload that this invocation has
  appended: at least 10 bytes.
\<close>

theorem serialize_null_stream:
  assumes "\<not> locked (binaryWriter (fury e))" and "appends serializer"
  shows "\<exists>f' gap payload.
           write_routine serializer None (codec_input XLANG None serializer (fury e)) = (Inr (), f')
           \<and> length gap = 4
           \<and> writer_dump (binaryWriter (codec_input XLANG None serializer (fury e)))
               = [7, XLANG] @ gap @ [0, 0, 0, 0]
           \<and> writer_dump (binaryWriter f') = [7, XLANG] @ gap @ [0, 0, 0, 0] @ payload
           \<and> fst (serialize XLANG None serializer e)
               = Inr ([7, XLANG] @ le32 (of_nat (10 + length payload)) @ [0, 0, 0, 0] @ payload)"
proof -
  note p = serializeInternal_payload [OF assms, of None XLANG, unfolded header_bitmap_None le32_0]
  from p obtain f' gap payload e' where
      "write_routine serializer None (codec_input XLANG None serializer (fury e)) = (Inr (), f')"
      "length gap = 4"
      "writer_dump (binaryWriter (codec_input XLANG None serializer (fury e)))
         = [7, XLANG] @ gap @ [0, 0, 0, 0]"
      "writer_dump (binaryWriter f')
         = writer_dump (binaryWriter (codec_input XLANG None serializer (fury e))) @ payload"
      "serializeInternal XLANG None serializer e = (Inr (), e')"
      "writer_dump (binaryWriter (fury e'))
         = [7, XLANG] @ le32 (of_nat (10 + length payload)) @ [0, 0, 0, 0] @ payload"
    by blast
  then show ?thesis
    by (intro exI [of _ f'] exI [of _ gap] exI [of _ payload])
       (simp add: serialize_def binaryWriter_dump_def)
qed

lemma serialize_null_byteCodec:
  "fst (serialize XLANG None byteCodec (constructor builtins arg))
     = Inr [7, XLANG, 10, 0, 0, 0, 0, 0, 0, 0]"
proof -
  let ?e = "constructor builtins arg"
  have w: "binaryWriter (fury ?e) = \<lparr>storage = [], cursor = 0, locked = False\<rparr>"
    by (simp add: constructor_def Let_def BinaryWriter_new_def)
  have hw: "header_writer 7 XLANG 1 (binaryWriter (fury ?e))
              = \<lparr>storage = [7, XLANG, 0, 0, 0, 0, 0, 0, 0, 0, 0], cursor = 10, locked = False\<rparr>"
    by (simp add: w header_writer_def writer_reserve_def writer_uint8_def writer_uint32_def
        writer_skip_def put_bytes_def le32_0 Let_def numeral_eq_Suc)
  have "write_routine byteCodec None (codec_input XLANG None byteCodec (fury ?e))
          = (Inr (), codec_input XLANG None byteCodec (fury ?e))"
    by (simp add: byteCodec_def)
  moreover have "binaryWriter (codec_input XLANG None byteCodec (fury ?e))
          = \<lparr>storage = [7, XLANG, 0, 0, 0, 0, 0, 0, 0, 0, 0], cursor = 10, locked = False\<rparr>"
    using hw by (simp add: codec_input_def header_bitmap_None byteCodec_def)
  ultimately show ?thesis
    using serializeInternal_unlocked [OF constructor_unlocked, of XLANG None byteCodec builtins arg]
    by (simp add: serialize_def binaryWriter_dump_def writer_dump_def writer_setUint32Position_def
        put_bytes_def le32_def Let_def)
qed

theorem serialize_null_stream_witness:
  "fst (serialize 1 None byteCodec (constructor [] None)) = Inr [7, 1, 10, 0, 0, 0, 0, 0, 0, 0]"
  using serialize_null_stream [of "constructor [] None" byteCodec 1,
      OF constructor_unlocked appends_byteCodec]
    serialize_null_byteCodec [of 1 "[]" None]
  by simp

text \<open>
  C1 as stated fails: on a fresh engine, with a codec that writes nothing for
  \<open>null\<close>, the stream has 10 bytes, not 1.
\<close>

theorem serialize_null_ten_bytes_counterexample:
  "fst (serialize 0 None byteCodec (constructor [] None)) = Inr [7, 0, 10, 0, 0, 0, 0, 0, 0, 0]
   \<and> length [7 :: byte, 0, 10, 0, 0, 0, 0, 0, 0, 0] \<noteq> 1"
  using serialize_null_byteCodec [of 0 "[]" None] by simp


lemma patch_cursor:
  "writer_setUint32Position pos v w = Inr w' \<Longrightarrow> cursor w' = cursor w \<and> locked w' = locked w"
  by (auto simp: writer_setUint32Position_def split: if_splits)

lemma serializeInternal_calls:
  fixes XLANG :: byte and data :: "'v option" and serializer :: "'v Serializer" and e :: engine
  assumes "\<not> locked (binaryWriter (fury e))"
  defines "r \<equiv> serializeInternal XLANG data serializer e"
    and "h \<equiv> history e @ header_calls (header_bitmap data) XLANG (fixedSize serializer)"
  shows "(\<exists>err. fst r = Inl err \<and> history (snd r) = h @ [SerializerWrite])
       \<or> (\<exists>err c. fst r = Inl err
             \<and> history (snd r) = h @ [SerializerWrite, WriterGetCursor c, WriterSetUint32Position 2 c])
       \<or> (fst r = Inr ()
             \<and> history (snd r) = h @ [SerializerWrite, WriterGetCursor (cursor (binaryWriter (fury (snd r)))),
                                       WriterSetUint32Position 2 (cursor (binaryWriter (fury (snd r))))])"
proof -
  obtain res f where wr: "write_routine serializer data (codec_input XLANG data serializer (fury e)) = (res, f)"
    by (cases "write_routine serializer data (codec_input XLANG data serializer (fury e))")
  show ?thesis
  proof (cases res)
    case (Inl err)
    then show ?thesis
      using serializeInternal_unlocked [OF assms(1), of XLANG data serializer] wr
      by (simp add: r_def h_def Let_def)
  next
    case (Inr u)
    show ?thesis
    proof (cases "writer_setUint32Position 2 (cursor (binaryWriter f)) (binaryWriter f)")
      case (Inl err)
      then have "fst r = Inl err \<and> history (snd r)
          = h @ [SerializerWrite, WriterGetCursor (cursor (binaryWriter f)),
                 WriterSetUint32Position 2 (cursor (binaryWriter f))]"
        using serializeInternal_unlocked [OF assms(1), of XLANG data serializer] wr Inr
        by (simp add: r_def h_def Let_def)
      then show ?thesis by blast
    next
      case p: (Inr w)
      then show ?thesis
        using serializeInternal_unlocked [OF assms(1), of XLANG data serializer] wr Inr patch_cursor [OF p]
        by (simp add: r_def h_def Let_def)
    qed
  qed
qed

lemma take_write_path:
  "take (Suc 0) (write_path b x n p c ex) = [WriterReset]"
  "take 10 (write_path b x n 2 c ex) = header_calls b x n @ [SerializerWrite]"
  "take 12 (write_path b x n 2 c ex) = header_calls b x n @ [SerializerWrite, WriterGetCursor c, WriterSetUint32Position 2 c]"
  by (simp_all add: write_path_def header_calls_def)

lemma write_path_split:
  "write_path b x n 2 c ex = take 12 (write_path b x n 2 c ex) @ [ex]"
  by (simp add: write_path_def)

lemma serialize_internal:
  "fst (serializeInternal XLANG data serializer e) = Inl err \<Longrightarrow>
     serialize XLANG data serializer e = (Inl err, snd (serializeInternal XLANG data serializer e))"
  "fst (serializeInternal XLANG data serializer e) = Inr () \<Longrightarrow>
     serialize XLANG data serializer e
       = (Inr (writer_dump (binaryWriter (fury (snd (serializeInternal XLANG data serializer e))))),
          called WriterDump (snd (serializeInternal XLANG data serializer e)))"
  by (cases "serializeInternal XLANG data serializer e"; simp add: serialize_def binaryWriter_dump_def)+

lemma serializeVolatile_internal:
  "fst (serializeInternal XLANG data serializer e) = Inl err \<Longrightarrow>
     serializeVolatile XLANG data serializer e = (Inl err, snd (serializeInternal XLANG data serializer e))"
  "fst (serializeInternal XLANG data serializer e) = Inr () \<Longrightarrow>
     serializeVolatile XLANG data serializer e
       = binaryWriter_dumpAndOwn (snd (serializeInternal XLANG data serializer e))"
  by (cases "serializeInternal XLANG data serializer e"; simp add: serializeVolatile_def)+

lemma dumpAndOwn_history:
  "history (snd (binaryWriter_dumpAndOwn e)) = history e @ [WriterDumpAndOwn]"
  by (simp add: binaryWriter_dumpAndOwn_def called_def with_writer_def split: prod.splits)

lemma reserve_capacity: "cursor w + n \<le> length (storage (writer_reserve n w))"
  by (simp add: writer_reserve_def)

lemma header_writer_facts:
  "\<exists>gap. length gap = 4
      \<and> writer_dump (header_writer bitmap XLANG hint w) = [bitmap, XLANG] @ gap @ [0, 0, 0, 0]"
  "cursor (header_writer bitmap XLANG hint w) = 10"
  "10 + hint \<le> length (storage (header_writer bitmap XLANG hint w))"
proof -
  from header_writer_dump [of bitmap XLANG hint w]
  obtain gap where g: "length gap = 4"
      "writer_dump (header_writer bitmap XLANG hint w) = [bitmap, XLANG] @ gap @ le32 0"
      "wf_writer (header_writer bitmap XLANG hint w)"
    by blast
  then show "\<exists>gap. length gap = 4
      \<and> writer_dump (header_writer bitmap XLANG hint w) = [bitmap, XLANG] @ gap @ [0, 0, 0, 0]"
    by (auto simp: le32_0)
  from dump_length [OF g(3)] g(1,2)
  show c: "cursor (header_writer bitmap XLANG hint w) = 10"
    by (simp add: length_le32)
  have "cursor (header_writer bitmap XLANG hint w)
      = cursor (writer_uint32 0 (writer_skip 4 (writer_uint8 XLANG (writer_uint8 bitmap (w\<lparr>cursor := 0\<rparr>)))))"
    by (simp add: header_writer_def writer_reserve_def)
  with c reserve_capacity [of "writer_uint32 0 (writer_skip 4 (writer_uint8 XLANG (writer_uint8 bitmap (w\<lparr>cursor := 0\<rparr>))))" hint]
  show "10 + hint \<le> length (storage (header_writer bitmap XLANG hint w))"
    by (simp add: header_writer_def)
qed

lemma dumpAndOwn_pair:
  "binaryWriter_dumpAndOwn x
     = (fst (writer_dumpAndOwn (binaryWriter (fury x))),
        x\<lparr>fury := (fury x)\<lparr>binaryWriter := snd (writer_dumpAndOwn (binaryWriter (fury x)))\<rparr>,
          history := history x @ [WriterDumpAndOwn]\<rparr>)"
  by (simp add: binaryWriter_dumpAndOwn_def called_def with_writer_def split: prod.splits)

text \<open>
  C6: for every value and every codec, \<open>serialize\<close> and \<open>serializeVolatile\<close> go
  through the write path of the spec in its order, and each step has its effect. The
  codec's write routine is invoked on the engine \<open>f0\<close> that the steps before it have
  made: Writer reset, both resolvers reset (their per-call state empty), bitmap and
  language tag written, 4 bytes skipped and a 4-byte zero written (cursor 10), the
  codec's fixed-size hint reserved. What the routine returns is then patched at the
  recorded cursor 2 with the cursor it has left, and the output is extracted from the
  patched Writer by \<open>dump\<close> or \<open>dumpAndOwn\<close>; the calls made are the list
  \<open>write_path\<close>. A call that fails (at the Writer's reset, in the codec or at the
  patch) stops there, with the calls made so far, and does not go back.
\<close>

theorem write_path_order:
  fixes XLANG :: byte and data :: "'v option" and serializer :: "'v Serializer" and e :: engine
  defines "f0 \<equiv> codec_input XLANG data serializer (fury e)"
    and "path \<equiv> write_path (header_bitmap data) XLANG (fixedSize serializer) 2"
    and "denied \<equiv> Error ''Permission denied. To release the serialization ownership, you must call the dispose function returned by serializeVolatile.''"
  shows "(\<exists>gap. length gap = 4
            \<and> writer_dump (binaryWriter f0) = [header_bitmap data, XLANG] @ gap @ [0, 0, 0, 0])
       \<and> cursor (binaryWriter f0) = 10
       \<and> 10 + fixedSize serializer \<le> length (storage (binaryWriter f0))
       \<and> referenceResolver f0 = \<lparr>writeObjects = [], readObjects = []\<rparr>
       \<and> transient (classResolver f0) = []
       \<and> (if locked (binaryWriter (fury e))
           then serialize XLANG data serializer e
                  = (Inl denied, e\<lparr>history := history e @ take 1 (path 0 WriterDump)\<rparr>)
              \<and> serializeVolatile XLANG data serializer e
                  = (Inl denied, e\<lparr>history := history e @ take 1 (path 0 WriterDumpAndOwn)\<rparr>)
           else case write_routine serializer data f0 of
                  (Inl err, f) \<Rightarrow>
                      serialize XLANG data serializer e
                        = (Inl err, e\<lparr>fury := f, history := history e @ take 10 (path 0 WriterDump)\<rparr>)
                    \<and> serializeVolatile XLANG data serializer e
                        = (Inl err, e\<lparr>fury := f, history := history e @ take 10 (path 0 WriterDumpAndOwn)\<rparr>)
                | (Inr u, f) \<Rightarrow>
                   (case writer_setUint32Position 2 (cursor (binaryWriter f)) (binaryWriter f) of
                      Inl err \<Rightarrow>
                          serialize XLANG data serializer e
                            = (Inl err, e\<lparr>fury := f,
                                 history := history e @ take 12 (path (cursor (binaryWriter f)) WriterDump)\<rparr>)
                        \<and> serializeVolatile XLANG data serializer e
                            = (Inl err, e\<lparr>fury := f,
                                 history := history e @ take 12 (path (cursor (binaryWriter f)) WriterDumpAndOwn)\<rparr>)
                    | Inr w \<Rightarrow>
                          serialize XLANG data serializer e
                            = (Inr (writer_dump w),
                               e\<lparr>fury := f\<lparr>binaryWriter := w\<rparr>,
                                 history := history e @ path (cursor (binaryWriter f)) WriterDump\<rparr>)
                        \<and> serializeVolatile XLANG data serializer e
                            = (fst (writer_dumpAndOwn w),
                               e\<lparr>fury := f\<lparr>binaryWriter := snd (writer_dumpAndOwn w)\<rparr>,
                                 history := history e @ path (cursor (binaryWriter f)) WriterDumpAndOwn\<rparr>)))"
proof -
  have hdr: "(\<exists>gap. length gap = 4
            \<and> writer_dump (binaryWriter f0) = [header_bitmap data, XLANG] @ gap @ [0, 0, 0, 0])
       \<and> cursor (binaryWriter f0) = 10
       \<and> 10 + fixedSize serializer \<le> length (storage (binaryWriter f0))
       \<and> referenceResolver f0 = \<lparr>writeObjects = [], readObjects = []\<rparr>
       \<and> transient (classResolver f0) = []"
    using header_writer_facts [where bitmap = "header_bitmap data" and XLANG = XLANG
        and hint = "fixedSize serializer" and w = "binaryWriter (fury e)"]
    by (simp add: f0_def codec_input_def resolver_reset_def class_reset_def)
  have main: "if locked (binaryWriter (fury e))
           then serialize XLANG data serializer e
                  = (Inl denied, e\<lparr>history := history e @ take 1 (path 0 WriterDump)\<rparr>)
              \<and> serializeVolatile XLANG data serializer e
                  = (Inl denied, e\<lparr>history := history e @ take 1 (path 0 WriterDumpAndOwn)\<rparr>)
           else case write_routine serializer data f0 of
                  (Inl err, f) \<Rightarrow>
                      serialize XLANG data serializer e
                        = (Inl err, e\<lparr>fury := f, history := history e @ take 10 (path 0 WriterDump)\<rparr>)
                    \<and> serializeVolatile XLANG data serializer e
                        = (Inl err, e\<lparr>fury := f, history := history e @ take 10 (path 0 WriterDumpAndOwn)\<rparr>)
                | (Inr u, f) \<Rightarrow>
                   (case writer_setUint32Position 2 (cursor (binaryWriter f)) (binaryWriter f) of
                      Inl err \<Rightarrow>
                          serialize XLANG data serializer e
                            = (Inl err, e\<lparr>fury := f,
                                 history := history e @ take 12 (path (cursor (binaryWriter f)) WriterDump)\<rparr>)
                        \<and> serializeVolatile XLANG data serializer e
                            = (Inl err, e\<lparr>fury := f,
                                 history := history e @ take 12 (path (cursor (binaryWriter f)) WriterDumpAndOwn)\<rparr>)
                    | Inr w \<Rightarrow>
                          serialize XLANG data serializer e
                            = (Inr (writer_dump w),
                               e\<lparr>fury := f\<lparr>binaryWriter := w\<rparr>,
                                 history := history e @ path (cursor (binaryWriter f)) WriterDump\<rparr>)
                        \<and> serializeVolatile XLANG data serializer e
                            = (fst (writer_dumpAndOwn w),
                               e\<lparr>fury := f\<lparr>binaryWriter := snd (writer_dumpAndOwn w)\<rparr>,
                                 history := history e @ path (cursor (binaryWriter f)) WriterDumpAndOwn\<rparr>))"
  proof (cases "locked (binaryWriter (fury e))")
    case True
    then show ?thesis
      by (simp add: serialize_locked [OF True] denied_def path_def take_write_path)
  next
    case False
    obtain res f where wr: "write_routine serializer data f0 = (res, f)"
      by (cases "write_routine serializer data f0")
    note si = serializeInternal_unlocked [OF False, of XLANG data serializer, folded f0_def, unfolded wr]
    let ?c = "cursor (binaryWriter f)"
    let ?h = "history e @ header_calls (header_bitmap data) XLANG (fixedSize serializer)"
    show ?thesis
    proof (cases res)
      case (Inl err)
      have "serializeInternal XLANG data serializer e
              = (Inl err, e\<lparr>fury := f, history := ?h @ [SerializerWrite]\<rparr>)"
        using si by (simp add: Inl Let_def)
      then have "serialize XLANG data serializer e
              = (Inl err, e\<lparr>fury := f, history := ?h @ [SerializerWrite]\<rparr>)"
        and "serializeVolatile XLANG data serializer e
              = (Inl err, e\<lparr>fury := f, history := ?h @ [SerializerWrite]\<rparr>)"
        by (simp_all add: serialize_def serializeVolatile_def)
      then show ?thesis
        by (simp add: False wr Inl path_def take_write_path)
    next
      case (Inr u)
      show ?thesis
      proof (cases "writer_setUint32Position 2 ?c (binaryWriter f)")
        case (Inl err)
        have "serializeInternal XLANG data serializer e
              = (Inl err, e\<lparr>fury := f,
                   history := ?h @ [SerializerWrite, WriterGetCursor ?c, WriterSetUint32Position 2 ?c]\<rparr>)"
          using si by (simp add: Inr Inl Let_def)
        then have "serialize XLANG data serializer e
              = (Inl err, e\<lparr>fury := f,
                   history := ?h @ [SerializerWrite, WriterGetCursor ?c, WriterSetUint32Position 2 ?c]\<rparr>)"
          and "serializeVolatile XLANG data serializer e
              = (Inl err, e\<lparr>fury := f,
                   history := ?h @ [SerializerWrite, WriterGetCursor ?c, WriterSetUint32Position 2 ?c]\<rparr>)"
          by (simp_all add: serialize_def serializeVolatile_def)
        then show ?thesis
          by (simp add: False wr Inr Inl path_def take_write_path)
      next
        case p: (Inr w)
        have si': "serializeInternal XLANG data serializer e
              = (Inr (), e\<lparr>fury := f\<lparr>binaryWriter := w\<rparr>,
                   history := ?h @ [SerializerWrite, WriterGetCursor ?c, WriterSetUint32Position 2 ?c]\<rparr>)"
          using si by (simp add: Inr p Let_def)
        have "serialize XLANG data serializer e
              = (Inr (writer_dump w), e\<lparr>fury := f\<lparr>binaryWriter := w\<rparr>,
                   history := ?h @ [SerializerWrite, WriterGetCursor ?c, WriterSetUint32Position 2 ?c, WriterDump]\<rparr>)"
          by (simp add: serialize_def si' binaryWriter_dump_def called_def)
        moreover have "serializeVolatile XLANG data serializer e
              = (fst (writer_dumpAndOwn w), e\<lparr>fury := f\<lparr>binaryWriter := snd (writer_dumpAndOwn w)\<rparr>,
                   history := ?h @ [SerializerWrite, WriterGetCursor ?c, WriterSetUint32Position 2 ?c, WriterDumpAndOwn]\<rparr>)"
          by (simp add: serializeVolatile_def si' dumpAndOwn_pair)
        moreover have "\<And>ex. path ?c ex = header_calls (header_bitmap data) XLANG (fixedSize serializer)
                         @ [SerializerWrite, WriterGetCursor ?c, WriterSetUint32Position 2 ?c, ex]"
          by (simp add: path_def write_path_def header_calls_def)
        ultimately show ?thesis
          by (simp add: False wr Inr p)
      qed
    qed
  qed
  from hdr main show ?thesis
    by (simp only: simp_thms)
qed


lemma header_bitmap_Some: "header_bitmap (Some v) = 6"
  by (simp add: header_bitmap_def flag_defs)

theorem write_path_order_witness:
  "fst (serialize 1 (Some 5) byteCodec (constructor [] None)) = Inr [6, 1, 11, 0, 0, 0, 0, 0, 0, 0, 5]
   \<and> history (snd (serialize 1 (Some 5) byteCodec (constructor [] None)))
        = write_path 6 1 1 2 11 WriterDump"
proof -
  let ?e = "constructor [] None"
  let ?ci = "codec_input 1 (Some 5) byteCodec (fury ?e)"
  have w: "binaryWriter (fury ?e) = \<lparr>storage = [], cursor = 0, locked = False\<rparr>"
    by (simp add: constructor_def Let_def BinaryWriter_new_def)
  have hw: "binaryWriter ?ci
              = \<lparr>storage = [6, 1, 0, 0, 0, 0, 0, 0, 0, 0, 0], cursor = 10, locked = False\<rparr>"
    by (simp add: codec_input_def header_bitmap_Some byteCodec_def w header_writer_def
        writer_reserve_def writer_uint8_def writer_uint32_def
        writer_skip_def put_bytes_def le32_0 Let_def numeral_eq_Suc)
  let ?post = "?ci\<lparr>binaryWriter := writer_uint8 5 (binaryWriter ?ci),
                 referenceResolver := (referenceResolver ?ci)
                   \<lparr>writeObjects := writeObjects (referenceResolver ?ci)
                        @ [(unat (5 :: byte), length (writeObjects (referenceResolver ?ci)))]\<rparr>\<rparr>"
  have wr: "write_routine byteCodec (Some 5) ?ci = (Inr (), ?post)"
    by (simp add: byteCodec_def)
  have bf: "writer_uint8 5 (binaryWriter ?ci)
               = \<lparr>storage = [6, 1, 0, 0, 0, 0, 0, 0, 0, 0, 5], cursor = 11, locked = False\<rparr>"
    by (simp add: hw writer_uint8_def writer_reserve_def put_bytes_def Let_def)
  have p: "writer_setUint32Position 2 11
               \<lparr>storage = [6, 1, 0, 0, 0, 0, 0, 0, 0, 0, 5], cursor = 11, locked = False\<rparr>
             = Inr \<lparr>storage = [6, 1, 11, 0, 0, 0, 0, 0, 0, 0, 5], cursor = 11, locked = False\<rparr>"
    by (simp add: writer_setUint32Position_def put_bytes_def le32_def)
  have fs: "fixedSize byteCodec = 1"
    by (simp add: byteCodec_def)
  show ?thesis
    using write_path_order [of 1 "Some 5" byteCodec ?e] fs
    by (simp add: constructor_unlocked wr p bf constructor_history header_bitmap_Some
        writer_dump_def)
qed



lemma serialize_calls_unlocked:
  assumes "\<not> locked (binaryWriter (fury e))"
  shows "\<exists>rest. history (snd (serialize XLANG data serializer e))
           = history e @ header_calls (header_bitmap data) XLANG (fixedSize serializer) @ rest"
    and "\<exists>rest. history (snd (serializeVolatile XLANG data serializer e))
           = history e @ header_calls (header_bitmap data) XLANG (fixedSize serializer) @ rest"
proof -
  let ?r = "serializeInternal XLANG data serializer e"
  from serializeInternal_calls [OF assms, of XLANG data serializer]
  obtain rest where h: "history (snd ?r)
      = history e @ header_calls (header_bitmap data) XLANG (fixedSize serializer) @ rest"
    by auto
  show "\<exists>rest. history (snd (serialize XLANG data serializer e))
           = history e @ header_calls (header_bitmap data) XLANG (fixedSize serializer) @ rest"
  proof (cases "fst ?r")
    case (Inl err)
    then show ?thesis using serialize_internal(1) [OF Inl] h by simp
  next
    case (Inr u)
    then have "fst ?r = Inr ()" by simp
    from serialize_internal(2) [OF this] h show ?thesis by (simp add: called_def)
  qed
  show "\<exists>rest. history (snd (serializeVolatile XLANG data serializer e))
           = history e @ header_calls (header_bitmap data) XLANG (fixedSize serializer) @ rest"
  proof (cases "fst ?r")
    case (Inl err)
    then show ?thesis using serializeVolatile_internal(1) [OF Inl] h by simp
  next
    case (Inr u)
    then have "fst ?r = Inr ()" by simp
    from serializeVolatile_internal(2) [OF this] h dumpAndOwn_history [of "snd ?r"]
    show ?thesis by simp
  qed
qed




section \<open>Ownership of the Writer\<close>

lemma serializeVolatile_Inr:
  assumes "fst (serializeVolatile XLANG data serializer e) = Inr view"
  shows "locked (binaryWriter (fury (snd (serializeVolatile XLANG data serializer e))))"
    and "dispose view = (\<lambda>w. w\<lparr>locked := False\<rparr>)"
proof -
  let ?r = "serializeInternal XLANG data serializer e"
  have ok: "fst ?r = Inr ()"
  proof (cases "fst ?r")
    case (Inl err)
    from serializeVolatile_internal(1) [OF Inl] assms show ?thesis by simp
  qed simp
  from serializeVolatile_internal(2) [OF ok] assms
  have "fst (binaryWriter_dumpAndOwn (snd ?r)) = Inr view"
    and eq: "serializeVolatile XLANG data serializer e = binaryWriter_dumpAndOwn (snd ?r)"
    by simp_all
  then have "\<not> locked (binaryWriter (fury (snd ?r)))"
    and v: "view = \<lparr>get = writer_dump, dispose = (\<lambda>w'. w'\<lparr>locked := False\<rparr>)\<rparr>"
    by (auto simp: binaryWriter_dumpAndOwn_def writer_dumpAndOwn_def split: if_splits)
  then show "locked (binaryWriter (fury (snd (serializeVolatile XLANG data serializer e))))"
    by (simp add: eq binaryWriter_dumpAndOwn_def writer_dumpAndOwn_def called_def with_writer_def)
  from v show "dispose view = (\<lambda>w. w\<lparr>locked := False\<rparr>)"
    by simp
qed

lemma serializeVolatile_appends:
  assumes "\<not> locked (binaryWriter (fury e))" and "appends serializer"
  shows "\<exists>view. fst (serializeVolatile XLANG data serializer e) = Inr view"
proof -
  from serializeInternal_appends [OF assms, of XLANG data]
  obtain e' where "serializeInternal XLANG data serializer e = (Inr (), e')"
    and "\<not> locked (binaryWriter (fury e'))"
    by blast
  then show ?thesis
    by (simp add: serializeVolatile_def binaryWriter_dumpAndOwn_def writer_dumpAndOwn_def)
qed

lemma invoke_dispose_unlocked:
  "dispose view = (\<lambda>w. w\<lparr>locked := False\<rparr>) \<Longrightarrow> \<not> locked (binaryWriter (fury (invoke_dispose view e)))"
  by (simp add: invoke_dispose_def with_writer_def)

lemma serialize_appends_unlocked:
  assumes "\<not> locked (binaryWriter (fury e))" and "appends serializer"
  shows "\<not> locked (binaryWriter (fury (snd (serialize XLANG data serializer e))))"
proof -
  from serializeInternal_appends [OF assms, of XLANG data]
  obtain e' where "serializeInternal XLANG data serializer e = (Inr (), e')"
    and "\<not> locked (binaryWriter (fury e'))"
    by blast
  then show ?thesis
    by (simp add: serialize_def binaryWriter_dump_def called_def)
qed

lemma deserialize_marker:
  assumes "keeps_marker serializer"
  shows "locked (binaryWriter (fury (snd (deserialize bytes serializer e))))
           = locked (binaryWriter (fury e))"
proof -
  let ?Q = "\<lambda>x. locked (binaryWriter (fury x)) = locked (binaryWriter (fury e))"
  let ?e3 = "binaryReader_reset bytes (classResolver_reset (referenceResolver_reset e))"
  let ?D = "deserialize bytes serializer e"
  have q3: "?Q ?e3"
    by (simp add: call_defs)
  have u8: "\<And>x r y. binaryReader_uint8 x = (r, y) \<Longrightarrow> ?Q x \<Longrightarrow> ?Q y"
    by (auto simp: binaryReader_uint8_def called_def with_reader_def split: prod.splits)
  have i32: "\<And>x r y. binaryReader_int32 x = (r, y) \<Longrightarrow> ?Q x \<Longrightarrow> ?Q y"
    by (auto simp: binaryReader_int32_def called_def with_reader_def split: prod.splits)
  have rd: "\<And>x. fury (snd (serializer_read serializer x)) = snd (read_routine serializer (fury x))"
    by (auto simp: serializer_read_def called_def split: prod.splits)
  obtain r4 e4 where s4: "binaryReader_uint8 ?e3 = (r4, e4)"
    by (cases "binaryReader_uint8 ?e3")
  note q4 = u8 [OF s4 q3]
  obtain r5 e5 where s5: "binaryReader_uint8 e4 = (r5, e5)"
    by (cases "binaryReader_uint8 e4")
  note q5 = u8 [OF s5 q4]
  obtain r6 e6 where s6: "binaryReader_int32 e5 = (r6, e6)"
    by (cases "binaryReader_int32 e5")
  note q6 = i32 [OF s6 q5]
  obtain r7 e7 where s7: "binaryReader_int32 e6 = (r7, e7)"
    by (cases "binaryReader_int32 e6")
  note q7 = i32 [OF s7 q6]
  have "?Q (snd ?D) \<or> fury (snd ?D) = snd (read_routine serializer (fury e7))"
    unfolding deserialize_def Let_def s4
    using q4 q5 q6 q7 rd [of e7]
    by (cases r4; cases r5; cases r6; cases r7; simp add: s5 s6 s7)
  then show ?thesis
  proof
    assume "?Q (snd ?D)"
    then show ?thesis .
  next
    assume a: "fury (snd ?D) = snd (read_routine serializer (fury e7))"
    from assms
    have "locked (binaryWriter (snd (read_routine serializer (fury e7))))
            = locked (binaryWriter (fury e7))"
      unfolding keeps_marker_def by blast
    with a q7 show ?thesis
      by (simp only:)
  qed
qed

lemma keeps_marker_byteCodec: "keeps_marker byteCodec"
  by (simp add: keeps_marker_def byteCodec_def split: prod.splits sum.splits)

lemma act_tracks:
  assumes "appends serializer" and "keeps_marker serializer" and "tracks s mn"
  shows "tracks (act XLANG serializer a s) (marker_after a mn)"
proof -
  obtain e views where s: "s = (e, views)" by (cases s)
  obtain m n where mn: "mn = (m, n)" by (cases mn)
  from assms(3) have l: "locked (binaryWriter (fury e)) = m" and len: "length views = n"
    and d: "list_all (\<lambda>view. dispose view = (\<lambda>w. w\<lparr>locked := False\<rparr>)) views"
    by (simp_all add: tracks_def s mn)
  show ?thesis
  proof (cases a)
    case (Serialize data)
    show ?thesis
    proof (cases m)
      case True
      with l have lk: "locked (binaryWriter (fury e))" by simp
      show ?thesis
        using len d True lk
        by (simp add: tracks_def s mn Serialize serialize_locked(1) [OF lk])
    next
      case False
      with l have ul: "\<not> locked (binaryWriter (fury e))" by simp
      show ?thesis
        using len d False serialize_appends_unlocked [OF ul assms(1), of XLANG data]
        by (simp add: tracks_def s mn Serialize)
    qed
  next
    case (SerializeVolatile data)
    show ?thesis
    proof (cases m)
      case True
      with l have lk: "locked (binaryWriter (fury e))" by simp
      show ?thesis
        using len d True lk
        by (simp add: tracks_def s mn SerializeVolatile serialize_locked(2) [OF lk])
    next
      case False
      with l have ul: "\<not> locked (binaryWriter (fury e))" by simp
      from serializeVolatile_appends [OF ul assms(1), of XLANG data]
      obtain view where v: "fst (serializeVolatile XLANG data serializer e) = Inr view"
        by blast
      then obtain e' where sv: "serializeVolatile XLANG data serializer e = (Inr view, e')"
        by (cases "serializeVolatile XLANG data serializer e") simp
      from serializeVolatile_Inr [OF v] sv
      have "locked (binaryWriter (fury e'))" and "dispose view = (\<lambda>w. w\<lparr>locked := False\<rparr>)"
        by simp_all
      then show ?thesis
        using len d False
        by (simp add: tracks_def s mn SerializeVolatile sv)
    qed
  next
    case (Deserialize bytes)
    show ?thesis
      using l len d deserialize_marker [OF assms(2), of bytes e]
      by (simp add: tracks_def s mn Deserialize)
  next
    case (Dispose i)
    show ?thesis
    proof (cases "i < n")
      case True
      with len d have "dispose (views ! i) = (\<lambda>w. w\<lparr>locked := False\<rparr>)"
        by (simp add: list_all_length)
      from invoke_dispose_unlocked [OF this, of e] True len d
      show ?thesis
        by (simp add: tracks_def s mn Dispose)
    next
      case False
      with l len d show ?thesis
        by (simp add: tracks_def s mn Dispose)
    qed
  qed
qed

lemma run_tracks:
  assumes "appends serializer" and "keeps_marker serializer" and "tracks s mn"
  shows "tracks (run XLANG serializer actions s) (marker actions mn)"
  using assms(3)
proof (induction actions arbitrary: s mn)
  case Nil
  then show ?case by (simp add: run_def marker_def)
next
  case (Cons a actions)
  from Cons.IH [OF act_tracks [OF assms(1,2) Cons.prems, of XLANG a]]
  show ?case by (simp add: run_def marker_def)
qed

lemma fresh_tracks:
  "\<not> locked (binaryWriter (fury e)) \<Longrightarrow> tracks (e, []) (False, 0)"
  by (simp add: tracks_def)

text \<open>
  C2, as the Writer has it: the pending-release marker is one flag of the Writer. After
  every sequence of \<open>serialize\<close>, \<open>serializeVolatile\<close>, \<open>deserialize\<close> and disposer
  calls on an engine with no view outstanding, with a codec that appends and whose read
  routine leaves the marker alone, the marker is what
  \<open>marker\<close> reads off the sequence. While it is set, \<open>serialize\<close> and
  \<open>serializeVolatile\<close> fail with the ownership violation and leave it set (the engine
  does not release the view); once the disposer of any view handed out has been
  invoked, and whenever the marker is clear, the next \<open>serialize\<close> or
  \<open>serializeVolatile\<close> returns its output.
\<close>

theorem ownership_enforced:
  assumes "appends serializer" and "keeps_marker serializer" and "appends serializer'"
    and "\<not> locked (binaryWriter (fury e))"
    and "run XLANG serializer actions (e, []) = (e', views)"
  shows "locked (binaryWriter (fury e')) = fst (marker actions (False, 0))
       \<and> length views = snd (marker actions (False, 0))
       \<and> (if locked (binaryWriter (fury e'))
           then (\<exists>err. fst (serialize XLANG data serializer' e') = Inl err \<and> OwnershipViolation err)
              \<and> (\<exists>err. fst (serializeVolatile XLANG data serializer' e') = Inl err \<and> OwnershipViolation err)
              \<and> locked (binaryWriter (fury (snd (serialize XLANG data serializer' e'))))
              \<and> locked (binaryWriter (fury (snd (serializeVolatile XLANG data serializer' e'))))
              \<and> (\<forall>i < length views.
                    (\<exists>bytes. fst (serialize XLANG data serializer' (invoke_dispose (views ! i) e')) = Inr bytes)
                  \<and> (\<exists>view. fst (serializeVolatile XLANG data serializer' (invoke_dispose (views ! i) e')) = Inr view))
           else (\<exists>bytes. fst (serialize XLANG data serializer' e') = Inr bytes)
              \<and> (\<exists>view. fst (serializeVolatile XLANG data serializer' e') = Inr view))"
proof -
  from run_tracks [OF assms(1,2) fresh_tracks [OF assms(4)], of XLANG actions] assms(5)
  have t: "tracks (e', views) (marker actions (False, 0))"
    by simp
  then have m: "locked (binaryWriter (fury e')) = fst (marker actions (False, 0))"
      "length views = snd (marker actions (False, 0))"
    and d: "list_all (\<lambda>view. dispose view = (\<lambda>w. w\<lparr>locked := False\<rparr>)) views"
    by (simp_all add: tracks_def)
  show ?thesis
  proof (cases "locked (binaryWriter (fury e'))")
    case True
    have "\<forall>i < length views.
            (\<exists>bytes. fst (serialize XLANG data serializer' (invoke_dispose (views ! i) e')) = Inr bytes)
          \<and> (\<exists>view. fst (serializeVolatile XLANG data serializer' (invoke_dispose (views ! i) e')) = Inr view)"
    proof (intro allI impI)
      fix i assume "i < length views"
      with d have "dispose (views ! i) = (\<lambda>w. w\<lparr>locked := False\<rparr>)"
        by (simp add: list_all_length)
      note u = invoke_dispose_unlocked [OF this, of e']
      show "(\<exists>bytes. fst (serialize XLANG data serializer' (invoke_dispose (views ! i) e')) = Inr bytes)
          \<and> (\<exists>view. fst (serializeVolatile XLANG data serializer' (invoke_dispose (views ! i) e')) = Inr view)"
        using serialize_appends [OF u assms(3), of XLANG data]
          serializeVolatile_appends [OF u assms(3), of XLANG data]
        by blast
    qed
    then show ?thesis
      using m True by (simp add: serialize_locked [OF True] OwnershipViolation_def)
  next
    case False
    show ?thesis
      using m False serialize_appends [OF False assms(3), of XLANG data]
        serializeVolatile_appends [OF False assms(3), of XLANG data]
      by auto
  qed
qed


theorem ownership_enforced_witness:
  "(\<exists>err. fst (serialize 1 (Some 6) byteCodec
               (fst (run 1 byteCodec [SerializeVolatile (Some 5), Deserialize [7]] (constructor [] None, [])))) = Inl err
        \<and> OwnershipViolation err)
   \<and> (\<exists>bytes. fst (serialize 1 (Some 6) byteCodec
               (invoke_dispose (snd (run 1 byteCodec [SerializeVolatile (Some 5), Deserialize [7]] (constructor [] None, [])) ! 0)
                  (fst (run 1 byteCodec [SerializeVolatile (Some 5), Deserialize [7]] (constructor [] None, []))))) = Inr bytes)"
proof -
  let ?s = "run 1 byteCodec [SerializeVolatile (Some 5), Deserialize [7]] (constructor [] None, [])"
  have r: "?s = (fst ?s, snd ?s)"
    by simp
  have m: "marker [SerializeVolatile (Some 5) :: byte action, Deserialize [7]] (False, 0) = (True, 1)"
    by (simp add: marker_def)
  show ?thesis
    using ownership_enforced [OF appends_byteCodec keeps_marker_byteCodec appends_byteCodec
        constructor_unlocked r,
        of "Some 6"]
    by (simp add: m)
qed

text \<open>
  C2 as stated fails on the sequence \<open>serializeVolatile\<close>, disposer of the first
  view, \<open>serializeVolatile\<close>, disposer of the first view again: two views have been
  handed out, the disposer of the second has never been invoked, and \<open>serialize\<close>
  returns its output.
\<close>

theorem stale_disposer_releases_later_view_counterexample:
  "length (snd (run 0 byteCodec
      [SerializeVolatile (Some 5), Dispose 0, SerializeVolatile (Some 6), Dispose 0]
      (constructor [] None, []))) = 2
   \<and> \<not> isl (fst (serialize 0 (Some 7) byteCodec (fst (run 0 byteCodec
      [SerializeVolatile (Some 5), Dispose 0, SerializeVolatile (Some 6), Dispose 0]
      (constructor [] None, [])))))"
proof -
  let ?a = "[SerializeVolatile (Some 5), Dispose 0, SerializeVolatile (Some 6), Dispose 0] :: byte action list"
  let ?s = "run 0 byteCodec ?a (constructor [] None, [])"
  have m: "marker ?a (False, 0) = (False, 2)"
    by (simp add: marker_def)
  from run_tracks [of byteCodec "(constructor [] None, [])" "(False, 0)" 0 ?a,
      OF appends_byteCodec keeps_marker_byteCodec fresh_tracks [OF constructor_unlocked]]
  have u: "\<not> locked (binaryWriter (fury (fst ?s)))" and l: "length (snd ?s) = 2"
    by (simp_all add: tracks_def m)
  from serialize_appends [of "fst ?s" byteCodec 0 "Some 7", OF u appends_byteCodec]
  have "\<not> isl (fst (serialize 0 (Some 7) byteCodec (fst ?s)))"
    by auto
  with l show ?thesis
    by simp
qed


section \<open>Per-call state of the resolvers\<close>

lemma resets_stale:
  "classResolver_reset (referenceResolver_reset (stale r t e))
     = classResolver_reset (referenceResolver_reset e)"
  by (simp add: stale_def classResolver_reset_def referenceResolver_reset_def called_def
      resolver_reset_def class_reset_def)

lemma deserialize_stale:
  "deserialize bytes serializer (stale r t e) = deserialize bytes serializer e"
  unfolding deserialize_def Let_def resets_stale ..

lemma serializeInternal_stale:
  assumes "\<not> locked (binaryWriter (fury e))"
  shows "serializeInternal XLANG data serializer (stale r t e) = serializeInternal XLANG data serializer e"
proof -
  have u: "\<not> locked (binaryWriter (fury (stale r t e)))"
    using assms by (simp add: stale_def)
  have c: "codec_input XLANG data serializer (fury (stale r t e)) = codec_input XLANG data serializer (fury e)"
    by (simp add: codec_input_def stale_def class_reset_def resolver_reset_def)
  have h: "history (stale r t e) = history e"
    by (simp add: stale_def)
  have s: "\<And>f h. (stale r t e)\<lparr>fury := f, history := h\<rparr> = e\<lparr>fury := f, history := h\<rparr>"
    by (simp add: stale_def)
  show ?thesis
    unfolding serializeInternal_unlocked [OF u] serializeInternal_unlocked [OF assms] c h Let_def s ..
qed

lemma deserialize_calls:
  "\<exists>rest. history (snd (deserialize bytes serializer e))
      = history e @ [RefReset, ClassReset, ReaderReset bytes] @ rest"
proof -
  let ?e3 = "binaryReader_reset bytes (classResolver_reset (referenceResolver_reset e))"
  have h3: "history ?e3 = history e @ [RefReset, ClassReset, ReaderReset bytes]"
    by (simp add: call_defs)
  have u8: "\<And>x r y. binaryReader_uint8 x = (r, y) \<Longrightarrow> history y = history x @ [ReaderUint8]"
    by (auto simp: binaryReader_uint8_def called_def with_reader_def split: prod.splits)
  have i32: "\<And>x r y. binaryReader_int32 x = (r, y) \<Longrightarrow> history y = history x @ [ReaderInt32]"
    by (auto simp: binaryReader_int32_def called_def with_reader_def split: prod.splits)
  have rd: "\<And>x. history (snd (serializer_read serializer x)) = history x @ [SerializerRead]"
    by (auto simp: serializer_read_def called_def split: prod.splits)
  have "\<exists>rest. history (snd (deserialize bytes serializer e)) = history ?e3 @ rest"
    unfolding deserialize_def Let_def
    by (auto split: prod.splits sum.splits dest!: u8 i32 simp: rd)
  then show ?thesis
    by (simp add: h3)
qed

lemma codec_input_resolvers: "resolvers_empty (codec_input XLANG data serializer f)"
  by (simp add: resolvers_empty_def codec_input_def resolver_reset_def class_reset_def)

lemma deserialize_resolvers:
  "\<exists>f0. resolvers_empty f0
      \<and> typeTable (classResolver f0) = typeTable (classResolver (fury e))
      \<and> (fury (snd (deserialize bytes serializer e)) = f0
         \<or> (fst (deserialize bytes serializer e), fury (snd (deserialize bytes serializer e)))
              = read_routine serializer f0)"
proof -
  let ?Q = "\<lambda>x. resolvers_empty (fury x)
      \<and> typeTable (classResolver (fury x)) = typeTable (classResolver (fury e))"
  let ?e3 = "binaryReader_reset bytes (classResolver_reset (referenceResolver_reset e))"
  have q3: "?Q ?e3"
    by (simp add: call_defs resolvers_empty_def resolver_reset_def class_reset_def)
  have u8: "\<And>x r y. binaryReader_uint8 x = (r, y) \<Longrightarrow> ?Q x \<Longrightarrow> ?Q y"
    by (auto simp: binaryReader_uint8_def called_def with_reader_def resolvers_empty_def
        split: prod.splits)
  have i32: "\<And>x r y. binaryReader_int32 x = (r, y) \<Longrightarrow> ?Q x \<Longrightarrow> ?Q y"
    by (auto simp: binaryReader_int32_def called_def with_reader_def resolvers_empty_def
        split: prod.splits)
  have rd: "\<And>x. (fst (serializer_read serializer x), fury (snd (serializer_read serializer x)))
                = read_routine serializer (fury x)"
    by (auto simp: serializer_read_def called_def split: prod.splits)
  let ?D = "deserialize bytes serializer e"
  obtain r4 e4 where s4: "binaryReader_uint8 ?e3 = (r4, e4)"
    by (cases "binaryReader_uint8 ?e3")
  note q4 = u8 [OF s4 q3]
  obtain r5 e5 where s5: "binaryReader_uint8 e4 = (r5, e5)"
    by (cases "binaryReader_uint8 e4")
  note q5 = u8 [OF s5 q4]
  obtain r6 e6 where s6: "binaryReader_int32 e5 = (r6, e6)"
    by (cases "binaryReader_int32 e5")
  note q6 = i32 [OF s6 q5]
  obtain r7 e7 where s7: "binaryReader_int32 e6 = (r7, e7)"
    by (cases "binaryReader_int32 e6")
  note q7 = i32 [OF s7 q6]
  have "?Q (snd ?D) \<or> (fst ?D, fury (snd ?D)) = read_routine serializer (fury e7)"
    unfolding deserialize_def Let_def s4
    using q4 q5 q6 q7 rd [of e7]
    by (cases r4; cases r5; cases r6; cases r7; simp add: s5 s6 s7)
  then show ?thesis
  proof
    assume "?Q (snd ?D)"
    then show ?thesis
      by (intro exI [of _ "fury (snd ?D)"]) simp
  next
    assume "(fst ?D, fury (snd ?D)) = read_routine serializer (fury e7)"
    with q7 show ?thesis
      by (intro exI [of _ "fury e7"]) simp
  qed
qed

lemma serializeInternal_resolvers:
  assumes "\<not> locked (binaryWriter (fury e))"
  shows "referenceResolver (fury (snd (serializeInternal XLANG data serializer e)))
           = referenceResolver (snd (write_routine serializer data (codec_input XLANG data serializer (fury e))))"
    and "classResolver (fury (snd (serializeInternal XLANG data serializer e)))
           = classResolver (snd (write_routine serializer data (codec_input XLANG data serializer (fury e))))"
proof -
  obtain res f where wr: "write_routine serializer data (codec_input XLANG data serializer (fury e)) = (res, f)"
    by (cases "write_routine serializer data (codec_input XLANG data serializer (fury e))")
  have "referenceResolver (fury (snd (serializeInternal XLANG data serializer e))) = referenceResolver f
      \<and> classResolver (fury (snd (serializeInternal XLANG data serializer e))) = classResolver f"
    using serializeInternal_unlocked [OF assms, of XLANG data serializer] wr
    by (cases res) (simp_all add: Let_def split: sum.splits)
  then show "referenceResolver (fury (snd (serializeInternal XLANG data serializer e)))
           = referenceResolver (snd (write_routine serializer data (codec_input XLANG data serializer (fury e))))"
    and "classResolver (fury (snd (serializeInternal XLANG data serializer e)))
           = classResolver (snd (write_routine serializer data (codec_input XLANG data serializer (fury e))))"
    by (simp_all add: wr)
qed

lemma extraction_resolvers:
  "referenceResolver (fury (snd (serialize XLANG data serializer e)))
     = referenceResolver (fury (snd (serializeInternal XLANG data serializer e)))"
  "classResolver (fury (snd (serialize XLANG data serializer e)))
     = classResolver (fury (snd (serializeInternal XLANG data serializer e)))"
  "referenceResolver (fury (snd (serializeVolatile XLANG data serializer e)))
     = referenceResolver (fury (snd (serializeInternal XLANG data serializer e)))"
  "classResolver (fury (snd (serializeVolatile XLANG data serializer e)))
     = classResolver (fury (snd (serializeInternal XLANG data serializer e)))"
  by (cases "serializeInternal XLANG data serializer e";
      simp add: serialize_def serializeVolatile_def binaryWriter_dump_def binaryWriter_dumpAndOwn_def
        called_def with_writer_def split: sum.splits prod.splits)+


text \<open>
  C7, as the code has it: every \<open>deserialize\<close> call resets the Reference Resolver
  and the Class Resolver's transient layer first, before the Reader is touched, and to
  empty: the call either ends with both empty (the type table kept) or hands the
  codec's read routine an engine in which both are empty. Every \<open>serialize\<close> and
  \<open>serializeVolatile\<close> call that passes the Writer's ownership check resets them
  right after the Writer's reset, before any byte is written: the codec's write
  routine is handed an engine in which both are empty, and the resolver state after
  the call is what that routine has left. Such calls do not depend on the per-call
  resolver state an earlier call has left behind (\<open>stale r t e\<close> and \<open>e\<close> give the same
  result and the same engine). A \<open>serialize\<close> or \<open>serializeVolatile\<close> call rejected
  by the ownership check resets nothing: it leaves the whole engine as it was.
\<close>

theorem resolvers_reset_each_call:
  "deserialize bytes serializer (stale r t e) = deserialize bytes serializer e
   \<and> (\<exists>rest. history (snd (deserialize bytes serializer e))
                = history e @ [RefReset, ClassReset] @ rest)
   \<and> (\<exists>f0. resolvers_empty f0
          \<and> typeTable (classResolver f0) = typeTable (classResolver (fury e))
          \<and> (fury (snd (deserialize bytes serializer e)) = f0
             \<or> (fst (deserialize bytes serializer e), fury (snd (deserialize bytes serializer e)))
                  = read_routine serializer f0))
   \<and> (if locked (binaryWriter (fury e))
       then snd (serialize XLANG data serializer' e) = e\<lparr>history := history e @ [WriterReset]\<rparr>
          \<and> snd (serializeVolatile XLANG data serializer' e) = e\<lparr>history := history e @ [WriterReset]\<rparr>
       else serialize XLANG data serializer' (stale r t e) = serialize XLANG data serializer' e
          \<and> serializeVolatile XLANG data serializer' (stale r t e) = serializeVolatile XLANG data serializer' e
          \<and> (\<exists>rest. history (snd (serialize XLANG data serializer' e))
                       = history e @ [WriterReset, RefReset, ClassReset] @ rest)
          \<and> (\<exists>rest. history (snd (serializeVolatile XLANG data serializer' e))
                       = history e @ [WriterReset, RefReset, ClassReset] @ rest)
          \<and> resolvers_empty (codec_input XLANG data serializer' (fury e))
          \<and> typeTable (classResolver (codec_input XLANG data serializer' (fury e)))
               = typeTable (classResolver (fury e))
          \<and> referenceResolver (fury (snd (serialize XLANG data serializer' e)))
               = referenceResolver (snd (write_routine serializer' data (codec_input XLANG data serializer' (fury e))))
          \<and> classResolver (fury (snd (serialize XLANG data serializer' e)))
               = classResolver (snd (write_routine serializer' data (codec_input XLANG data serializer' (fury e))))
          \<and> referenceResolver (fury (snd (serializeVolatile XLANG data serializer' e)))
               = referenceResolver (snd (write_routine serializer' data (codec_input XLANG data serializer' (fury e))))
          \<and> classResolver (fury (snd (serializeVolatile XLANG data serializer' e)))
               = classResolver (snd (write_routine serializer' data (codec_input XLANG data serializer' (fury e)))))"
proof (cases "locked (binaryWriter (fury e))")
  case True
  have "\<exists>rest. history (snd (deserialize bytes serializer e))
                = history e @ [RefReset, ClassReset] @ rest"
    using deserialize_calls [of bytes serializer e] by auto
  then show ?thesis
    using deserialize_stale [of bytes serializer r t e]
      deserialize_resolvers [of e bytes serializer] True
    by (simp add: serialize_locked [OF True])
next
  case False
  have "serialize XLANG data serializer' (stale r t e) = serialize XLANG data serializer' e"
    and "serializeVolatile XLANG data serializer' (stale r t e) = serializeVolatile XLANG data serializer' e"
    by (simp_all add: serialize_def serializeVolatile_def serializeInternal_stale [OF False])
  moreover have "\<exists>rest. history (snd (serialize XLANG data serializer' e))
                       = history e @ [WriterReset, RefReset, ClassReset] @ rest"
    and "\<exists>rest. history (snd (serializeVolatile XLANG data serializer' e))
                       = history e @ [WriterReset, RefReset, ClassReset] @ rest"
    using serialize_calls_unlocked [OF False, of XLANG data serializer']
    by (auto simp: header_calls_def)
  moreover have "typeTable (classResolver (codec_input XLANG data serializer' (fury e)))
               = typeTable (classResolver (fury e))"
    by (simp add: codec_input_def class_reset_def)
  moreover have "\<exists>rest. history (snd (deserialize bytes serializer e))
                = history e @ [RefReset, ClassReset] @ rest"
    using deserialize_calls [of bytes serializer e] by auto
  ultimately show ?thesis
    using deserialize_stale [of bytes serializer r t e]
      deserialize_resolvers [of e bytes serializer] False
      codec_input_resolvers [of XLANG data serializer' "fury e"]
      serializeInternal_resolvers [OF False, of XLANG data serializer']
    by (simp add: extraction_resolvers)
qed


lemma dumpAndOwn_resolver:
  "referenceResolver (fury (snd (binaryWriter_dumpAndOwn e))) = referenceResolver (fury e)"
  by (simp add: binaryWriter_dumpAndOwn_def called_def with_writer_def split: prod.splits)

lemma volatile_byteCodec_resolver:
  "referenceResolver (fury (snd (serializeVolatile XLANG (Some v) byteCodec (constructor builtins arg))))
     = \<lparr>writeObjects = [(unat v, 0)], readObjects = []\<rparr>"
proof -
  let ?r = "serializeInternal XLANG (Some v) byteCodec (constructor builtins arg)"
  have r: "referenceResolver (fury (snd ?r)) = \<lparr>writeObjects = [(unat v, 0)], readObjects = []\<rparr>"
    using serializeInternal_unlocked [OF constructor_unlocked, of XLANG "Some v" byteCodec builtins arg]
    by (simp add: Let_def codec_input_def resolver_reset_def byteCodec_def split: sum.splits)
  show ?thesis
  proof (cases "fst ?r")
    case (Inl err)
    from serializeVolatile_internal(1) [OF Inl] r show ?thesis by simp
  next
    case (Inr u)
    then have "fst ?r = Inr ()" by simp
    from serializeVolatile_internal(2) [OF this] r dumpAndOwn_resolver [of "snd ?r"]
    show ?thesis by simp
  qed
qed

text \<open>
  C7 as stated fails on a \<open>serialize\<close> call made while a view is outstanding: the
  call is rejected at the Writer's reset, the resolvers are not reset, and what the
  earlier call noted in the Reference Resolver is still there after the call.
\<close>

theorem rejected_call_keeps_resolver_state_counterexample:
  "fst (serialize 0 (Some 6) byteCodec (snd (serializeVolatile 0 (Some 5) byteCodec (constructor [] None))))
     = Inl (Error ''Permission denied. To release the serialization ownership, you must call the dispose function returned by serializeVolatile.'')
   \<and> referenceResolver (fury (snd (serialize 0 (Some 6) byteCodec
         (snd (serializeVolatile 0 (Some 5) byteCodec (constructor [] None))))))
     = \<lparr>writeObjects = [(5, 0)], readObjects = []\<rparr>
   \<and> history (snd (serialize 0 (Some 6) byteCodec
         (snd (serializeVolatile 0 (Some 5) byteCodec (constructor [] None)))))
     = history (snd (serializeVolatile 0 (Some 5) byteCodec (constructor [] None))) @ [WriterReset]"
proof -
  from serializeVolatile_appends [of "constructor [] None" byteCodec 0 "Some 5",
      OF constructor_unlocked appends_byteCodec]
  obtain view where "fst (serializeVolatile 0 (Some 5) byteCodec (constructor [] None)) = Inr view"
    by blast
  from serializeVolatile_Inr(1) [OF this]
  have l: "locked (binaryWriter (fury (snd (serializeVolatile 0 (Some 5) byteCodec (constructor [] None)))))" .
  show ?thesis
    using volatile_byteCodec_resolver [of 0 5 "[]" None]
    by (simp add: serialize_locked(1) [OF l])
qed

section \<open>Registration\<close>

text \<open>
  C8: \<open>registerSerializer\<close> calls the codec compiler once (one
  \<open>GenerateSerializer\<close> is added to the history, and the engine is as the compiler
  left it), and the closures it returns are the engine's operations applied with the
  codec that this one call returned.
\<close>

theorem registerSerializer_closures:
  assumes "gen description (fury e) = (Inr serializer, f)"
  shows "\<exists>r. registerSerializer XLANG gen description e
              = (Inr r, e\<lparr>fury := f, history := history e @ [GenerateSerializer]\<rparr>)
           \<and> reg_serializer r = serializer
           \<and> (\<forall>data e'. reg_serialize r data e' = serialize XLANG data serializer e')
           \<and> (\<forall>data e'. reg_serializeVolatile r data e' = serializeVolatile XLANG data serializer e')
           \<and> (\<forall>bytes e'. reg_deserialize r bytes e' = deserialize bytes serializer e')"
  using assms
  by (simp add: registerSerializer_def generateSerializer_def called_def)

theorem registerSerializer_closures_witness:
  "\<exists>r e'. registerSerializer 1 genByte ''byte'' (constructor [] None) = (Inr r, e')
      \<and> history e' = [GenerateSerializer]
      \<and> reg_serializer r = byteCodec
      \<and> reg_deserialize r [7] e' = deserialize [7] byteCodec e'"
proof -
  have g: "genByte ''byte'' (fury (constructor [] None))
      = (Inr byteCodec, snd (genByte ''byte'' (fury (constructor [] None))))"
    by (simp add: genByte_def)
  show ?thesis
    using registerSerializer_closures [of genByte "''byte''" "constructor [] None" byteCodec
        "snd (genByte ''byte'' (fury (constructor [] None)))" 1, OF g]
    by (auto simp: constructor_history)
qed


end
